theory Spec2Isabelle
  imports Main
begin

section \<open>Exceptions and sequential effects\<close>

text \<open>
  The script is one sequential thread of \<^verbatim>\<open>await\<close>s.  A computation takes the state of
  the system and returns the new state together with either the value it produced
  (\<open>Inr\<close>) or the value it threw (\<open>Inl\<close>).

  JavaScript can throw, and a promise can reject with, any value.  What the script does
  with a caught value is read its \<^verbatim>\<open>message\<close>, so thrown values are told apart by that:
  \<^item> \<open>Error m\<close>: a value whose \<^verbatim>\<open>message\<close> is the string \<open>m\<close>; every \<^verbatim>\<open>Error\<close> object is
    one, those the script creates with \<^verbatim>\<open>new Error\<close> and the \<^verbatim>\<open>TypeError\<close>s of the engine;
  \<^item> \<open>NoMessage\<close>: a value other than \<^verbatim>\<open>null\<close> and \<^verbatim>\<open>undefined\<close> whose \<^verbatim>\<open>message\<close> is
    \<^verbatim>\<open>undefined\<close>: a rejection with a string or a number, an object without that property
    (a value whose \<^verbatim>\<open>message\<close> is \<^verbatim>\<open>null\<close>, a number or a boolean fails at the same
    places, with another wording);
  \<^item> \<open>ThrownNull\<close> and \<open>ThrownUndefined\<close>: the values \<^verbatim>\<open>null\<close> and \<^verbatim>\<open>undefined\<close>.
\<close>

datatype exn = Error string | NoMessage | ThrownNull | ThrownUndefined

type_synonym ('a, 's) action = "'s \<Rightarrow> (exn + 'a) \<times> 's"

definition returnE :: "'a \<Rightarrow> ('a, 's) action" where
  "returnE x = (\<lambda>s. (Inr x, s))"

definition throwE :: "exn \<Rightarrow> ('a, 's) action" where
  "throwE e = (\<lambda>s. (Inl e, s))"

definition bindE :: "('a, 's) action \<Rightarrow> ('a \<Rightarrow> ('b, 's) action) \<Rightarrow> ('b, 's) action" where
  "bindE m f = (\<lambda>s. case m s of (Inl e, s') \<Rightarrow> (Inl e, s') | (Inr x, s') \<Rightarrow> f x s')"

text \<open>\<^verbatim>\<open>try { m } catch (e) { h e }\<close>: the handler starts in the state the body left.\<close>

definition try_catch :: "('a, 's) action \<Rightarrow> (exn \<Rightarrow> ('a, 's) action) \<Rightarrow> ('a, 's) action" where
  "try_catch m h = (\<lambda>s. case m s of (Inl e, s') \<Rightarrow> h e s' | (Inr x, s') \<Rightarrow> (Inr x, s'))"

text \<open>
  \<^verbatim>\<open>try { m } finally { fin }\<close> where \<open>fin\<close> has no \<^verbatim>\<open>return\<close>: the outcome of \<open>m\<close> is
  kept unless \<open>fin\<close> itself throws.
\<close>

definition try_finally :: "('a, 's) action \<Rightarrow> (unit, 's) action \<Rightarrow> ('a, 's) action" where
  "try_finally m fin =
     (\<lambda>s. case m s of (r, s') \<Rightarrow>
        (case fin s' of (Inl e, s'') \<Rightarrow> (Inl e, s'') | (Inr u, s'') \<Rightarrow> (r, s'')))"

text \<open>An outcome that is already known, as a computation.\<close>

definition liftE :: "exn + 'a \<Rightarrow> ('a, 's) action" where
  "liftE outcome = (\<lambda>s. (outcome, s))"

subsection \<open>Reading the message of a caught value\<close>

text \<open>
  The \<^verbatim>\<open>TypeError\<close> of reading property \<open>property\<close> of \<^verbatim>\<open>null\<close> or \<^verbatim>\<open>undefined\<close>
  (\<open>what\<close>), in the wording of the V8 engine.
\<close>

definition TypeError_reading :: "string \<Rightarrow> string \<Rightarrow> exn" where
  "TypeError_reading what property =
     Error (''Cannot read properties of '' @ what @ '' (reading '' @ [CHR 0x27] @ property
            @ [CHR 0x27] @ '')'')"

text \<open>The expression \<^verbatim>\<open>e.message\<close>; \<open>None\<close> is \<^verbatim>\<open>undefined\<close>.\<close>

fun read_message :: "exn \<Rightarrow> exn + string option" where
  "read_message (Error m) = Inr (Some m)"
| "read_message NoMessage = Inr None"
| "read_message ThrownNull = Inl (TypeError_reading ''null'' ''message'')"
| "read_message ThrownUndefined = Inl (TypeError_reading ''undefined'' ''message'')"

text \<open>
  The receiver of a method call \<^verbatim>\<open>e.message.slice(...)\<close> or \<^verbatim>\<open>e.message.includes(...)\<close>
  (\<open>method\<close> is the name of the method): the message, when it is a string.
\<close>

definition message_for :: "string \<Rightarrow> exn \<Rightarrow> exn + string" where
  "message_for method e =
     (case read_message e of
        Inl typeError \<Rightarrow> Inl typeError
      | Inr None \<Rightarrow> Inl (TypeError_reading ''undefined'' method)
      | Inr (Some m) \<Rightarrow> Inr m)"

text \<open>A template literal prints \<^verbatim>\<open>undefined\<close> as that word.\<close>

definition shown :: "string option \<Rightarrow> string" where
  "shown m = (case m of Some t \<Rightarrow> t | None \<Rightarrow> ''undefined'')"

section \<open>Strings and numbers as JavaScript prints and tests them\<close>

text \<open>Characters are ASCII; pictographs inside the script's messages are left out.\<close>

function show_nat :: "nat \<Rightarrow> string" where
  "show_nat n =
     (if n < 10 then [''0123456789'' ! n]
      else show_nat (n div 10) @ [''0123456789'' ! (n mod 10)])"
  by pat_completeness auto
termination
  by (relation "measure (\<lambda>n. n)") auto

declare show_nat.simps [simp del]

definition show_int :: "int \<Rightarrow> string" where
  "show_int i = (if i < 0 then CHR ''-'' # show_nat (nat (- i)) else show_nat (nat i))"

text \<open>\<^verbatim>\<open>s.startsWith(p)\<close> and \<^verbatim>\<open>s.includes(p)\<close>.\<close>

fun startsWith :: "string \<Rightarrow> string \<Rightarrow> bool" where
  "startsWith s [] = True"
| "startsWith [] (p # ps) = False"
| "startsWith (c # cs) (p # ps) = (c = p \<and> startsWith cs ps)"

fun str_includes :: "string \<Rightarrow> string \<Rightarrow> bool" where
  "str_includes [] p = (p = [])"
| "str_includes (c # cs) p = (startsWith (c # cs) p \<or> str_includes cs p)"

text \<open>\<^verbatim>\<open>s.toLowerCase()\<close> on ASCII letters.\<close>

definition toLowerCase :: "string \<Rightarrow> string" where
  "toLowerCase s =
     map (\<lambda>c. if 65 \<le> (of_char c :: nat) \<and> (of_char c :: nat) \<le> 90
               then char_of ((of_char c :: nat) + 32) else c) s"

text \<open>The ASCII members of the regular-expression class \<^verbatim>\<open>\s\<close>: TAB, LF, VT, FF, CR, space.\<close>

definition is_space :: "char \<Rightarrow> bool" where
  "is_space c = ((9 \<le> (of_char c :: nat) \<and> (of_char c :: nat) \<le> 13) \<or> (of_char c :: nat) = 32)"

text \<open>\<^verbatim>\<open>s.replace(/\s+/g, '-')\<close>: every maximal run of white space becomes one dash.\<close>

function replace_spaces :: "string \<Rightarrow> string" where
  "replace_spaces [] = []"
| "replace_spaces (c # cs) =
     (if is_space c then CHR ''-'' # replace_spaces (dropWhile is_space cs)
      else c # replace_spaces cs)"
  by pat_completeness auto
termination
  by (relation "measure length") (auto simp: length_dropWhile_le less_Suc_eq_le)

text \<open>
  \<^verbatim>\<open>Math.round(ms / 1000)\<close> for an integer number of milliseconds: the nearest integer,
  a tie going up.
\<close>

definition round_seconds :: "int \<Rightarrow> int" where
  "round_seconds ms = (ms + 500) div 1000"

section \<open>Configuration\<close>

text \<open>
  The value of \<^verbatim>\<open>config.devices\<close> may be anything a module can export.  Arrays hold device
  names; an object is the categorized form \<^verbatim>\<open>{ samsung: [...], premium: [...] }\<close>.
\<close>

datatype jsval =
    JUndefined
  | JNull
  | JBool bool
  | JNum int
  | JStr string
  | JObj "(string \<times> string list) list"
  | JArr "string list"

text \<open>\<^verbatim>\<open>!v\<close> is \<open>\<not> truthy v\<close>.\<close>

fun truthy :: "jsval \<Rightarrow> bool" where
  "truthy JUndefined = False"
| "truthy JNull = False"
| "truthy (JBool b) = b"
| "truthy (JNum n) = (n \<noteq> 0)"
| "truthy (JStr s) = (s \<noteq> [])"
| "truthy (JObj fields) = True"
| "truthy (JArr xs) = True"

fun isArray :: "jsval \<Rightarrow> bool" where
  "isArray (JArr xs) = True"
| "isArray v = False"

text \<open>\<^verbatim>\<open>v.length === 0\<close>, read only where \<open>v\<close> is known to be an array.\<close>

fun length_is_zero :: "jsval \<Rightarrow> bool" where
  "length_is_zero (JArr xs) = (xs = [])"
| "length_is_zero v = False"

record settings =
  appToSearch :: "string option"
  timeout :: "int option"
  platformVersion :: "string option"
  waitTime :: "int option"
  retries :: "int option"

text \<open>
  The exported object.  The script is not in strict mode, so an assignment to a property
  that cannot be written (the export is frozen, the property is read-only, the export
  is a primitive) is ignored without an error: \<open>devices_writable\<close> and
  \<open>settings_writable\<close> tell whether an assignment to the property takes effect.
\<close>

record config =
  devices :: jsval
  settings :: "settings option"
  devices_writable :: bool
  settings_writable :: bool

text \<open>\<^verbatim>\<open>config.devices = v\<close> and \<^verbatim>\<open>config.settings = v\<close>\<close>

definition assign_devices :: "jsval \<Rightarrow> config \<Rightarrow> config" where
  "assign_devices v config = (if devices_writable config then config\<lparr>devices := v\<rparr> else config)"

definition assign_settings :: "settings option \<Rightarrow> config \<Rightarrow> config" where
  "assign_settings v config =
     (if settings_writable config then config\<lparr>settings := v\<rparr> else config)"

definition DEFAULT_CONFIG :: config where
  "DEFAULT_CONFIG =
     \<lparr> devices = JArr [''Galaxy S23'', ''Galaxy S22'', ''Pixel 7'', ''Pixel 6'', ''Galaxy S24''],
       settings = Some \<lparr> appToSearch = Some ''Google Chrome'', timeout = Some 30000,
                         platformVersion = Some ''13'', waitTime = Some 5000,
                         retries = None \<rparr>,
       devices_writable = True, settings_writable = True \<rparr>"

text \<open>What \<^verbatim>\<open>src/config.js\<close> exports (the fields the script reads).\<close>

definition shipped_config :: config where
  "shipped_config =
     \<lparr> devices = JObj
         [(''samsung'', [''Samsung Galaxy S20'', ''Samsung Galaxy S21'', ''Samsung Galaxy Note 20'',
                         ''Samsung Galaxy S20+'', ''Samsung Galaxy S25'']),
          (''premium'', [''OnePlus 9'', ''iPhone 12'', ''iPhone 13'']),
          (''others'', [''Huawei P40''])],
       settings = Some \<lparr> appToSearch = Some ''Google Chrome'', timeout = Some 30000,
                         platformVersion = Some ''12'', waitTime = None,
                         retries = Some 3 \<rparr>,
       devices_writable = True, settings_writable = True \<rparr>"

section \<open>The system: the device cloud, the calls made to it, the console\<close>

text \<open>
  The capability descriptor sent to the provider: the fields of \<^verbatim>\<open>LT:Options\<close> that are
  computed from the inputs (the other entries are fixed literals).  \<open>lt_platformVersion\<close>
  is \<open>None\<close> where the script sends \<^verbatim>\<open>undefined\<close>.
\<close>

record capabilities =
  lt_user :: string
  lt_accessKey :: string
  lt_build :: string
  lt_name :: string
  lt_deviceName :: string
  lt_platformVersion :: "string option"
  lt_tags :: "string list"

text \<open>The remote calls, as recorded in the order the script issues them.\<close>

datatype 'e call =
    Remote capabilities
  | GetSessionId
  | Pause nat
  | Query string
  | IsDisplayed 'e
  | Click 'e
  | SetValue 'e string
  | PressKeyCode nat
  | DeleteSession

text \<open>
  The provider is an arbitrary deterministic machine over a state \<open>'w\<close>: each operation
  answers (or throws) and moves the machine on.  \<open>'e\<close> is the type of element handles.
  \<open>query\<close> is \<^verbatim>\<open>driver.$\<close>; \<open>now\<close> is \<^verbatim>\<open>Date.now()\<close>; \<open>setTimeout\<close> is the
  orchestrator's timer, which cannot fail.
\<close>

record ('w, 'e) provider =
  now :: "'w \<Rightarrow> int \<times> 'w"
  remote :: "capabilities \<Rightarrow> 'w \<Rightarrow> (exn + unit) \<times> 'w"
  getSessionId :: "'w \<Rightarrow> (exn + string) \<times> 'w"
  pause :: "nat \<Rightarrow> 'w \<Rightarrow> (exn + unit) \<times> 'w"
  query :: "string \<Rightarrow> 'w \<Rightarrow> (exn + 'e) \<times> 'w"
  isDisplayed :: "'e \<Rightarrow> 'w \<Rightarrow> (exn + bool) \<times> 'w"
  click :: "'e \<Rightarrow> 'w \<Rightarrow> (exn + unit) \<times> 'w"
  setValue :: "'e \<Rightarrow> string \<Rightarrow> 'w \<Rightarrow> (exn + unit) \<times> 'w"
  pressKeyCode :: "nat \<Rightarrow> 'w \<Rightarrow> (exn + unit) \<times> 'w"
  deleteSession :: "'w \<Rightarrow> (exn + unit) \<times> 'w"
  setTimeout :: "nat \<Rightarrow> 'w \<Rightarrow> 'w"

text \<open>
  \<open>driver\<close> is the local variable of the device run (\<open>False\<close> while it is \<^verbatim>\<open>undefined\<close>:
  the operations of the session are those of the provider, so only whether it is set
  matters).  \<open>console\<close> holds the calls of \<^verbatim>\<open>console.error\<close>, and those of
  \<^verbatim>\<open>console.log\<close> in the configuration loader, in \<^verbatim>\<open>catch\<close> blocks and in the
  teardown, each as the list of its arguments (how the runtime formats them is not the
  script's doing); progress messages are not recorded.
\<close>

record ('w, 'e) system =
  world :: 'w
  calls :: "'e call list"
  console :: "jsval list list"
  driver :: bool

definition call :: "'e call \<Rightarrow> ('w \<Rightarrow> (exn + 'a) \<times> 'w) \<Rightarrow> ('a, ('w, 'e) system) action" where
  "call c operation =
     (\<lambda>s. case operation (world s) of
             (r, w') \<Rightarrow> (r, s\<lparr>world := w', calls := calls s @ [c]\<rparr>))"

definition Date_now :: "('w, 'e) provider \<Rightarrow> (int, ('w, 'e) system) action" where
  "Date_now ops = (\<lambda>s. case now ops (world s) of (t, w') \<Rightarrow> (Inr t, s\<lparr>world := w'\<rparr>))"

definition print :: "jsval list \<Rightarrow> (unit, ('w, 'e) system) action" where
  "print arguments = (\<lambda>s. (Inr (), s\<lparr>console := console s @ [arguments]\<rparr>))"

subsection \<open>Loading the configuration (top of the script)\<close>

text \<open>
  \<open>required\<close> is the outcome of \<^verbatim>\<open>require('./config')\<close>: the exported object, or \<open>Inl\<close>
  when the module cannot be loaded or exports \<^verbatim>\<open>null\<close> or \<^verbatim>\<open>undefined\<close>, so that
  \<^verbatim>\<open>config.devices\<close> throws (the \<^verbatim>\<open>catch\<close> block does not look at what it caught).
\<close>

definition load_config :: "(exn + config) \<Rightarrow> (config, ('w, 'e) system) action" where
  "load_config required =
     try_catch
       (bindE (liftE required) (\<lambda>config.
        bindE (print [JStr ''config.js file loaded'']) (\<lambda>_.
        bindE (if \<not> truthy (devices config) \<or> \<not> isArray (devices config)
                  \<or> length_is_zero (devices config)
               then bindE (print [JStr '' Invalid config.devices, using default devices'']) (\<lambda>_.
                    returnE (assign_devices (devices DEFAULT_CONFIG) config))
               else returnE config) (\<lambda>config.
        returnE (if settings config = None
                 then assign_settings (settings DEFAULT_CONFIG) config
                 else config)))))
       (\<lambda>err.
        bindE (print [JStr '' config.js not found, using default settings'']) (\<lambda>_.
        returnE DEFAULT_CONFIG))"

section \<open>The device flow runner\<close>

record RunResult =
  device :: string
  success :: bool
  duration :: int
  error :: "string option"
  sessionId :: "string option"

record env =
  LT_USERNAME :: "string option"
  LT_ACCESS_KEY :: "string option"

record deviceConfig =
  version :: string
  reliable :: bool

definition DEVICE_MAP :: "(string \<times> deviceConfig) list" where
  "DEVICE_MAP =
     [(''Galaxy S24'', \<lparr>version = ''14'', reliable = True\<rparr>),
      (''Galaxy S23'', \<lparr>version = ''13'', reliable = True\<rparr>),
      (''Galaxy S22'', \<lparr>version = ''12'', reliable = True\<rparr>),
      (''Pixel 7'', \<lparr>version = ''13'', reliable = True\<rparr>),
      (''Pixel 6'', \<lparr>version = ''12'', reliable = True\<rparr>),
      (''OnePlus 11'', \<lparr>version = ''13'', reliable = False\<rparr>),
      (''Galaxy Note 20'', \<lparr>version = ''11'', reliable = False\<rparr>)]"

text \<open>
  \<^verbatim>\<open>DEVICE_MAP\<close> is an object literal, so indexing it with one of these names yields a
  member inherited from \<^verbatim>\<open>Object.prototype\<close>: a truthy value without a \<^verbatim>\<open>version\<close>.
\<close>

definition Object_prototype_keys :: "string list" where
  "Object_prototype_keys =
     [''constructor'', ''__proto__'', ''hasOwnProperty'', ''isPrototypeOf'',
      ''propertyIsEnumerable'', ''toLocaleString'', ''toString'', ''valueOf'',
      ''__defineGetter__'', ''__defineSetter__'', ''__lookupGetter__'', ''__lookupSetter__'']"

text \<open>\<^verbatim>\<open>(DEVICE_MAP[deviceName] || { version: '12', reliable: false }).version\<close>\<close>

definition deviceConfig_version :: "string \<Rightarrow> string option" where
  "deviceConfig_version deviceName =
     (case map_of DEVICE_MAP deviceName of
        Some deviceConfig \<Rightarrow> Some (version deviceConfig)
      | None \<Rightarrow> if deviceName \<in> set Object_prototype_keys then None else Some ''12'')"

definition build_capabilities :: "string \<Rightarrow> string \<Rightarrow> string \<Rightarrow> int \<Rightarrow> capabilities" where
  "build_capabilities deviceName username accessKey t =
     \<lparr> lt_user = username,
       lt_accessKey = accessKey,
       lt_build = ''PlayStore-Download-'' @ show_int t,
       lt_name = ''PlayStore Download Test - '' @ deviceName,
       lt_deviceName = deviceName,
       lt_platformVersion = deviceConfig_version deviceName,
       lt_tags = [''playstore'', ''download'', replace_spaces (toLowerCase deviceName)] \<rparr>"

text \<open>
  Lines 72 to 78.  \<^verbatim>\<open>!username\<close> holds for an unset variable and for the empty string.
\<close>

definition credentials :: "env \<Rightarrow> (string \<times> string, 's) action" where
  "credentials env =
     (case (LT_USERNAME env, LT_ACCESS_KEY env) of
        (Some username, Some accessKey) \<Rightarrow>
          if username = [] \<or> accessKey = []
          then throwE (Error '' LambdaTest credentials missing! Check your .env file'')
          else returnE (username, accessKey)
      | _ \<Rightarrow> throwE (Error '' LambdaTest credentials missing! Check your .env file''))"

text \<open>Lines 72 to 133: credentials, capabilities, session, session id, warm-up pause.\<close>

definition open_session ::
  "('w, 'e) provider \<Rightarrow> env \<Rightarrow> string \<Rightarrow> (string, ('w, 'e) system) action" where
  "open_session ops env deviceName =
     bindE (credentials env) (\<lambda>(username, accessKey).
     bindE (Date_now ops) (\<lambda>t.
     bindE (call (Remote (build_capabilities deviceName username accessKey t))
                 (remote ops (build_capabilities deviceName username accessKey t))) (\<lambda>_.
     bindE (\<lambda>s. (Inr (), s\<lparr>driver := True\<rparr>)) (\<lambda>_.
     bindE (call GetSessionId (getSessionId ops)) (\<lambda>sid.
     bindE (call (Pause 10000) (pause ops 10000)) (\<lambda>_.
     returnE sid))))))"

subsection \<open>Multi-strategy element resolution\<close>

record strategy =
  name :: string
  selector :: string

definition searchStrategies :: "strategy list" where
  \<open>searchStrategies =
     [\<lparr>name = ''Main Search Box'',
       selector = ''android=new UiSelector().resourceId("com.android.vending:id/search_box_idle_text")''\<rparr>,
      \<lparr>name = ''General Search Box'',
       selector = ''android=new UiSelector().resourceId("com.android.vending:id/search_box")''\<rparr>,
      \<lparr>name = ''Search Text'',
       selector = ''android=new UiSelector().textContains("Search")''\<rparr>,
      \<lparr>name = ''Search Description'',
       selector = ''android=new UiSelector().descriptionContains("Search")''\<rparr>,
      \<lparr>name = ''XPath Resource ID'',
       selector = ''//*[@resource-id="com.android.vending:id/search_box_idle_text"]''\<rparr>]\<close>

definition appResultStrategies :: "string \<Rightarrow> strategy list" where
  \<open>appResultStrategies app =
     [\<lparr>name = ''Text match'',
       selector = ''android=new UiSelector().textContains("'' @ app
                  @ ''").className("android.widget.TextView")''\<rparr>,
      \<lparr>name = ''Description match'',
       selector = ''android=new UiSelector().descriptionContains("'' @ app
                  @ ''").className("android.view.View")''\<rparr>]\<close>

text \<open>
  The \<^verbatim>\<open>catch (e)\<close> of one attempt, lines 155 to 157: one line on the console, built
  from \<^verbatim>\<open>e.message.slice(0, 50)\<close>.  When that expression throws, the exception leaves
  the \<^verbatim>\<open>catch\<close> block, and with it the loop.
\<close>

definition attempt_failed ::
  "string \<Rightarrow> strategy \<Rightarrow> exn \<Rightarrow> (unit, ('w, 'e) system) action" where
  "attempt_failed prefix strategy e =
     bindE (liftE (message_for ''slice'' e)) (\<lambda>m.
     print [JStr (prefix @ name strategy @ '': '' @ take 50 m @ ''...'')])"

text \<open>
  One pass through the body of the \<^verbatim>\<open>for\<close> loop (lines 147 to 157 and 191 to 201).
  \<open>element\<close> is the loop's variable (\<^verbatim>\<open>searchElement\<close>, \<^verbatim>\<open>appElement\<close>; \<open>None\<close> is
  \<^verbatim>\<open>null\<close>): it is assigned as soon as \<^verbatim>\<open>driver.$\<close> returns.  The pass returns whether
  it ended in \<^verbatim>\<open>break\<close>, and the variable.  \<open>prefix\<close> is the text that starts the
  message of the \<^verbatim>\<open>catch\<close> block, the only difference between the two loops that is
  recorded.
\<close>

definition try_strategy ::
  "('w, 'e) provider \<Rightarrow> string \<Rightarrow> strategy \<Rightarrow> 'e option
     \<Rightarrow> (bool \<times> 'e option, ('w, 'e) system) action" where
  "try_strategy ops prefix strategy element =
     (\<lambda>s. case call (Query (selector strategy)) (query ops (selector strategy)) s of
        (Inl e, s1) \<Rightarrow>
          bindE (attempt_failed prefix strategy e) (\<lambda>_. returnE (False, element)) s1
      | (Inr el, s1) \<Rightarrow>
          (case call (IsDisplayed el) (isDisplayed ops el) s1 of
             (Inl e, s2) \<Rightarrow>
               bindE (attempt_failed prefix strategy e) (\<lambda>_. returnE (False, Some el)) s2
           | (Inr visible, s2) \<Rightarrow>
               if visible then
                 (case call (Click el) (click ops el) s2 of
                    (Inl e, s3) \<Rightarrow>
                      bindE (attempt_failed prefix strategy e) (\<lambda>_. returnE (False, Some el)) s3
                  | (Inr u, s3) \<Rightarrow> returnE (True, Some el) s3)
               else returnE (False, Some el) s2))"

text \<open>The loop: it returns the variable, or throws what a \<^verbatim>\<open>catch\<close> block threw.\<close>

fun strategies_loop ::
  "('w, 'e) provider \<Rightarrow> string \<Rightarrow> strategy list \<Rightarrow> 'e option \<Rightarrow> ('w, 'e) system
     \<Rightarrow> (exn + 'e option) \<times> ('w, 'e) system" where
  "strategies_loop ops prefix [] element s = (Inr element, s)"
| "strategies_loop ops prefix (strategy # rest) element s =
     (case try_strategy ops prefix strategy element s of
        (Inl e, s') \<Rightarrow> (Inl e, s')
      | (Inr (True, element'), s') \<Rightarrow> (Inr element', s')
      | (Inr (False, element'), s') \<Rightarrow> strategies_loop ops prefix rest element' s')"

text \<open>Lines 135 to 162: the search-box loop and the test that follows it.\<close>

definition search_box_step :: "('w, 'e) provider \<Rightarrow> (unit, ('w, 'e) system) action" where
  "search_box_step ops =
     bindE (strategies_loop ops ''Attempt failed for '' searchStrategies None) (\<lambda>searchElement.
     if searchElement = None then throwE (Error '' Search box not found.'')
     else returnE ())"

text \<open>\<^verbatim>\<open>config.settings?.appToSearch || "Google Chrome"\<close>\<close>

definition appToSearch_of :: "config \<Rightarrow> string" where
  "appToSearch_of config =
     (case settings config of
        None \<Rightarrow> ''Google Chrome''
      | Some st \<Rightarrow>
          (case appToSearch st of
             None \<Rightarrow> ''Google Chrome''
           | Some a \<Rightarrow> if a = [] then ''Google Chrome'' else a))"

text \<open>Lines 168 to 176: the text field.\<close>

definition type_query_step ::
  "('w, 'e) provider \<Rightarrow> string \<Rightarrow> (unit, ('w, 'e) system) action" where
  \<open>type_query_step ops app =
     bindE (call (Query ''android=new UiSelector().className("android.widget.EditText")'')
                 (query ops ''android=new UiSelector().className("android.widget.EditText")''))
       (\<lambda>inputField.
     bindE (call (IsDisplayed inputField) (isDisplayed ops inputField)) (\<lambda>visible.
     if visible then
       bindE (call (SetValue inputField app) (setValue ops inputField app)) (\<lambda>_.
       call (PressKeyCode 66) (pressKeyCode ops 66))
     else throwE (Error '' Text field not found.'')))\<close>

text \<open>Lines 180 to 206: the result-entry loop and the test that follows it.\<close>

definition app_result_step ::
  "('w, 'e) provider \<Rightarrow> string \<Rightarrow> (unit, ('w, 'e) system) action" where
  \<open>app_result_step ops app =
     bindE (strategies_loop ops '' Attempt failed for '' (appResultStrategies app) None)
       (\<lambda>appElement.
     if appElement = None then throwE (Error (''"'' @ app @ ''" not found in results.''))
     else returnE ())\<close>

text \<open>Lines 210 to 236: the action button.\<close>

definition install_selector :: string where
  \<open>install_selector = ''android=new UiSelector().text("Install").className("android.widget.Button")''\<close>

definition open_selector :: string where
  \<open>open_selector = ''android=new UiSelector().textContains("Open").className("android.widget.Button")''\<close>

definition no_button_message :: string where
  "no_button_message = [CHR '' '', CHR 0x27] @ ''Install'' @ [CHR 0x27] @ '' or ''
                       @ [CHR 0x27] @ ''Open'' @ [CHR 0x27] @ '' button not found.''"

definition install_step :: "('w, 'e) provider \<Rightarrow> (unit, ('w, 'e) system) action" where
  "install_step ops =
     bindE (call (Query install_selector) (query ops install_selector)) (\<lambda>installButton.
     bindE (call (IsDisplayed installButton) (isDisplayed ops installButton))
       (\<lambda>isInstallButtonVisible.
     if isInstallButtonVisible then call (Click installButton) (click ops installButton)
     else
       bindE (call (Query open_selector) (query ops open_selector)) (\<lambda>openOrUpdateButton.
       bindE (call (IsDisplayed openOrUpdateButton) (isDisplayed ops openOrUpdateButton))
         (\<lambda>isButtonVisible.
       if isButtonVisible then call (Click openOrUpdateButton) (click ops openOrUpdateButton)
       else throwE (Error no_button_message)))))"

subsection \<open>The run: \<^verbatim>\<open>try\<close>, \<^verbatim>\<open>catch\<close>, \<^verbatim>\<open>finally\<close>\<close>

text \<open>Lines 164 to 208: after the search box, up to the detail page of the app.\<close>

definition open_detail_page ::
  "('w, 'e) provider \<Rightarrow> config \<Rightarrow> (unit, ('w, 'e) system) action" where
  "open_detail_page ops config =
     bindE (type_query_step ops (appToSearch_of config)) (\<lambda>_.
     bindE (call (Pause 5000) (pause ops 5000)) (\<lambda>_.
     bindE (app_result_step ops (appToSearch_of config)) (\<lambda>_.
     call (Pause 5000) (pause ops 5000))))"

text \<open>The body of the \<^verbatim>\<open>try\<close> block, lines 72 to 252.\<close>

definition flow ::
  "('w, 'e) provider \<Rightarrow> env \<Rightarrow> config \<Rightarrow> string \<Rightarrow> int
     \<Rightarrow> (RunResult, ('w, 'e) system) action" where
  "flow ops env config deviceName startTime =
     bindE (open_session ops env deviceName) (\<lambda>sid.
     bindE (search_box_step ops) (\<lambda>_.
     bindE (open_detail_page ops config) (\<lambda>_.
     bindE (install_step ops) (\<lambda>_.
     bindE (call (Pause 30000) (pause ops 30000)) (\<lambda>_.
     bindE (Date_now ops) (\<lambda>endTime.
     returnE \<lparr> device = deviceName, success = True,
               duration = round_seconds (endTime - startTime),
               error = None, sessionId = Some sid \<rparr>))))))"

text \<open>Lines 261 to 269: the hint printed after the message.\<close>

definition classify :: "string \<Rightarrow> (unit, ('w, 'e) system) action" where
  "classify msg =
     (if str_includes msg ''authentication'' \<or> str_includes msg ''401''
      then print [JStr '' Authentication error - check LambdaTest credentials'']
      else if str_includes msg ''device'' \<or> str_includes msg ''Device not found''
      then print [JStr ''Device unavailable - try another device'']
      else if str_includes msg ''timeout'' \<or> str_includes msg ''ECONNRESET''
      then print [JStr ''Connection timeout - check your internet connection'']
      else if str_includes msg ''session'' \<or> str_includes msg ''concurrent''
      then print [JStr ''Concurrent session limit exceeded'']
      else returnE ())"

text \<open>
  The \<^verbatim>\<open>catch (error)\<close> block, lines 254 to 277.  It reads \<^verbatim>\<open>error.message\<close> for
  the second line it prints (line 259), calls \<^verbatim>\<open>error.message.includes\<close> (line 261) and
  puts \<^verbatim>\<open>error.message\<close> into the result.  What these throw leaves the block: the
  function then ends by throwing it, after the \<^verbatim>\<open>finally\<close> block.
\<close>

definition report_failure ::
  "('w, 'e) provider \<Rightarrow> string \<Rightarrow> int \<Rightarrow> exn \<Rightarrow> (RunResult, ('w, 'e) system) action" where
  "report_failure ops deviceName startTime err =
     bindE (Date_now ops) (\<lambda>endTime.
     bindE (print [JStr ('' Error on '' @ deviceName @ '' after ''
                   @ show_int (round_seconds (endTime - startTime)) @ '' seconds:'')]) (\<lambda>_.
     bindE (liftE (read_message err)) (\<lambda>m.
     bindE (print [JStr ('' '' @ shown m)]) (\<lambda>_.
     bindE (liftE (message_for ''includes'' err)) (\<lambda>msg.
     bindE (classify msg) (\<lambda>_.
     returnE \<lparr> device = deviceName, success = False,
               duration = round_seconds (endTime - startTime),
               error = m, sessionId = None \<rparr>))))))"

text \<open>
  The \<^verbatim>\<open>finally\<close> block, lines 279 to 288.  The inner \<^verbatim>\<open>catch\<close> calls \<^verbatim>\<open>console.log\<close>
  with two arguments, the second being \<^verbatim>\<open>closeError.message\<close>; when reading it throws,
  the exception leaves the \<^verbatim>\<open>finally\<close> block.
\<close>

definition teardown :: "('w, 'e) provider \<Rightarrow> string \<Rightarrow> (unit, ('w, 'e) system) action" where
  "teardown ops deviceName =
     (\<lambda>s. if driver s
           then try_catch
                  (bindE (call DeleteSession (deleteSession ops)) (\<lambda>_.
                   print [JStr ('' Session for '' @ deviceName @ '' closed'')]))
                  (\<lambda>closeError.
                   bindE (liftE (read_message closeError)) (\<lambda>m.
                   print [JStr ('' Problem closing session for '' @ deviceName @ '':''),
                          case m of Some t \<Rightarrow> JStr t | None \<Rightarrow> JUndefined])) s
           else returnE () s)"

text \<open>The \<^verbatim>\<open>try\<close> and \<^verbatim>\<open>catch\<close> blocks together: what the run returns, before teardown.\<close>

definition guarded_flow ::
  "('w, 'e) provider \<Rightarrow> env \<Rightarrow> config \<Rightarrow> string \<Rightarrow> int
     \<Rightarrow> (RunResult, ('w, 'e) system) action" where
  "guarded_flow ops env config deviceName startTime =
     try_catch (flow ops env config deviceName startTime)
               (report_failure ops deviceName startTime)"

definition runPlayStoreDownloadFlow ::
  "('w, 'e) provider \<Rightarrow> env \<Rightarrow> config \<Rightarrow> string \<Rightarrow> (RunResult, ('w, 'e) system) action" where
  "runPlayStoreDownloadFlow ops env config deviceName =
     (\<lambda>s. bindE (Date_now ops) (\<lambda>startTime.
             try_finally (guarded_flow ops env config deviceName startTime)
                         (teardown ops deviceName))
           (s\<lparr>driver := False\<rparr>))"

section \<open>The batch orchestrator\<close>

text \<open>
  The \<^verbatim>\<open>for\<close> loop of lines 310 to 350, for any per-device runner \<open>run\<close>.  In the
  \<^verbatim>\<open>try\<close> block only the call of the runner can throw, so the block is the \<open>Inr\<close>
  branch and the \<^verbatim>\<open>catch\<close> block the \<open>Inl\<close> branch.  The \<^verbatim>\<open>catch\<close> block reads
  \<^verbatim>\<open>error.message\<close> to build the failed result (line 344) and calls
  \<^verbatim>\<open>error.message.slice\<close> for its message (line 348); what these throw leaves the
  loop and the function.  The accumulator is \<^verbatim>\<open>results\<close>, \<^verbatim>\<open>successCount\<close>,
  \<^verbatim>\<open>failureCount\<close>; \<open>rest \<noteq> []\<close> is \<^verbatim>\<open>i < devices.length - 1\<close>.
\<close>

fun devices_loop ::
  "(string \<Rightarrow> (RunResult, ('w, 'e) system) action) \<Rightarrow> ('w, 'e) provider \<Rightarrow> string list
     \<Rightarrow> RunResult list \<times> nat \<times> nat \<Rightarrow> ('w, 'e) system
     \<Rightarrow> (exn + RunResult list \<times> nat \<times> nat) \<times> ('w, 'e) system" where
  "devices_loop run ops [] acc s = (Inr acc, s)"
| "devices_loop run ops (dev # rest) (results, successCount, failureCount) s =
     (case run dev s of
        (Inr result, s1) \<Rightarrow>
          devices_loop run ops rest
            (results @ [result],
             if success result then successCount + 1 else successCount,
             if success result then failureCount else failureCount + 1)
            (if rest \<noteq> [] then s1\<lparr>world := setTimeout ops 15000 (world s1)\<rparr> else s1)
      | (Inl err, s1) \<Rightarrow>
          (case read_message err of
             Inl typeError \<Rightarrow> (Inl typeError, s1)
           | Inr m \<Rightarrow>
               (case message_for ''slice'' err of
                  Inl typeError \<Rightarrow> (Inl typeError, s1)
                | Inr msg \<Rightarrow>
                    devices_loop run ops rest
                      (results @ [\<lparr> device = dev, success = False, duration = 0,
                                     error = m, sessionId = None \<rparr>],
                       successCount, failureCount + 1)
                      (s1\<lparr>console := console s1 @
                            [[JStr ('' '' @ dev @ '': Completely failed - '' @ take 100 msg
                                    @ ''...'')]]\<rparr>))))"

text \<open>
  \<^verbatim>\<open>const devices = config.devices || DEFAULT_CONFIG.devices\<close>, then
  \<^verbatim>\<open>devices.join(', ')\<close>, which only an array has.
\<close>

definition runAllDevices_with ::
  "(string \<Rightarrow> (RunResult, ('w, 'e) system) action) \<Rightarrow> ('w, 'e) provider \<Rightarrow> config
     \<Rightarrow> (RunResult list, ('w, 'e) system) action" where
  "runAllDevices_with run ops config =
     bindE (Date_now ops) (\<lambda>startTime.
       case (if truthy (devices config) then devices config else devices DEFAULT_CONFIG) of
         JArr ds \<Rightarrow>
           bindE (devices_loop run ops ds ([], 0, 0)) (\<lambda>(results, successCount, failureCount).
           bindE (Date_now ops) (\<lambda>endTime.
           returnE results))
       | _ \<Rightarrow> throwE (Error ''devices.join is not a function''))"

definition runAllDevices ::
  "('w, 'e) provider \<Rightarrow> env \<Rightarrow> config \<Rightarrow> (RunResult list, ('w, 'e) system) action" where
  "runAllDevices ops env config =
     runAllDevices_with (runPlayStoreDownloadFlow ops env config) ops config"

section \<open>Running as the main module\<close>

text \<open>\<^verbatim>\<open>process.exit(successCount > 0 ? 0 : 1)\<close>, line 394 to 396.\<close>

definition exit_code :: "RunResult list \<Rightarrow> nat" where
  "exit_code results = (if length (filter success results) > 0 then 0 else 1)"

text \<open>
  The two handlers attached to the promise of \<^verbatim>\<open>runAllDevices()\<close>, lines 393 to 402:
  \<^verbatim>\<open>.then\<close> for a batch that returned its results, \<^verbatim>\<open>.catch\<close> for one that threw.
  They return the code given to \<^verbatim>\<open>process.exit\<close>; the \<^verbatim>\<open>.catch\<close> handler reads
  \<^verbatim>\<open>error.message\<close> first, for the second argument of \<^verbatim>\<open>console.error\<close>.
\<close>

definition on_settled :: "exn + RunResult list \<Rightarrow> (nat, ('w, 'e) system) action" where
  "on_settled outcome =
     (case outcome of
        Inr results \<Rightarrow> returnE (exit_code results)
      | Inl err \<Rightarrow>
          bindE (liftE (read_message err)) (\<lambda>m.
          bindE (print [JStr '' General error during execution:'',
                        case m of Some t \<Rightarrow> JStr t | None \<Rightarrow> JUndefined]) (\<lambda>_.
          bindE (print [JStr ''Check settings and try again'']) (\<lambda>_.
          returnE 1))))"

text \<open>
  The module from top to bottom, as the process sees it: the result is the exit code.
  \<open>dependencies\<close> is the outcome of lines 1 and 2, which load \<^verbatim>\<open>dotenv\<close> and
  \<^verbatim>\<open>webdriverio\<close>.  An exception there, or one that escaped the configuration loader,
  is uncaught, and one thrown by a handler is an unhandled rejection: the runtime
  (Node 15 and later) ends the process with code 1.
\<close>

definition main_module ::
  "('w, 'e) provider \<Rightarrow> env \<Rightarrow> exn + unit \<Rightarrow> exn + config \<Rightarrow> ('w, 'e) system
     \<Rightarrow> nat \<times> ('w, 'e) system" where
  "main_module ops env dependencies required s =
     (case dependencies of
        Inl uncaught \<Rightarrow> (1, s)
      | Inr loaded \<Rightarrow>
          (case load_config required s of
             (Inl uncaught, s1) \<Rightarrow> (1, s1)
           | (Inr config, s1) \<Rightarrow>
               (case runAllDevices ops env config s1 of
                  (outcome, s2) \<Rightarrow>
                    (case on_settled outcome s2 of
                       (Inr code, s3) \<Rightarrow> (code, s3)
                     | (Inl unhandled, s3) \<Rightarrow> (1, s3)))))"

section \<open>Concrete clouds, used as examples\<close>

text \<open>
  A cloud whose clock is its whole state and whose element handles are the selectors
  themselves.  \<open>present\<close> tells for which selectors \<^verbatim>\<open>driver.$\<close> returns (it throws for
  the others), \<open>visible\<close> which elements are displayed, \<open>clickable\<close> on which elements
  a click does not throw.
\<close>

definition scripted ::
  "(string \<Rightarrow> bool) \<Rightarrow> (string \<Rightarrow> bool) \<Rightarrow> (string \<Rightarrow> bool) \<Rightarrow> (int, string) provider" where
  "scripted present visible clickable =
     \<lparr> now = (\<lambda>w. (w, w)),
       remote = (\<lambda>c w. (Inr (), w + 2000)),
       getSessionId = (\<lambda>w. (Inr ''session-1'', w)),
       pause = (\<lambda>n w. (Inr (), w + int n)),
       query = (\<lambda>sel w. (if present sel then Inr sel else Inl (Error ''no such element''), w)),
       isDisplayed = (\<lambda>el w. (Inr (visible el), w)),
       click = (\<lambda>el w. (if clickable el then Inr () else Inl (Error ''stale element''), w)),
       setValue = (\<lambda>el v w. (Inr (), w)),
       pressKeyCode = (\<lambda>k w. (Inr (), w)),
       deleteSession = (\<lambda>w. (Inr (), w)),
       setTimeout = (\<lambda>n w. w + int n) \<rparr>"

text \<open>A cloud that cannot be reached: opening the session times out.\<close>

definition unreachable :: "(int, string) provider" where
  "unreachable = (scripted (\<lambda>sel. True) (\<lambda>el. True) (\<lambda>el. True))
                   \<lparr> remote := (\<lambda>c w. (Inl (Error ''connect ETIMEDOUT''), w + 120000)) \<rparr>"


text \<open>Everything works, except that deleting the session throws.\<close>

definition teardown_fails :: "(int, string) provider" where
  "teardown_fails = (scripted (\<lambda>sel. True) (\<lambda>el. True) (\<lambda>el. True))
                      \<lparr> deleteSession := (\<lambda>w. (Inl (Error ''socket hang up''), w)) \<rparr>"

text \<open>Every selector resolves to an element, and no element is displayed.\<close>

definition nothing_visible :: "(int, string) provider" where
  "nothing_visible = scripted (\<lambda>sel. True) (\<lambda>el. False) (\<lambda>el. True)"

text \<open>
  The session cannot be opened, and the rejection is a plain string, not an
  \<^verbatim>\<open>Error\<close> object.
\<close>

definition rejects_plainly :: "(int, string) provider" where
  "rejects_plainly = (scripted (\<lambda>sel. True) (\<lambda>el. True) (\<lambda>el. True))
                       \<lparr> remote := (\<lambda>c w. (Inl NoMessage, w + 120000)) \<rparr>"


text \<open>\<^verbatim>\<open>src/config.js\<close> with its export frozen: \<^verbatim>\<open>module.exports = Object.freeze({...})\<close>.\<close>

definition frozen_config :: config where
  "frozen_config = shipped_config \<lparr> devices_writable := False, settings_writable := False \<rparr>"

text \<open>A configuration with one device.\<close>

definition one_device_config :: config where
  "one_device_config = DEFAULT_CONFIG \<lparr> devices := JArr [''Pixel 7''] \<rparr>"

definition idle :: "(int, string) system" where
  "idle = \<lparr> world = 0, calls = [], console = [], driver = False \<rparr>"

definition signed_in :: env where
  "signed_in = \<lparr> LT_USERNAME = Some ''user'', LT_ACCESS_KEY = Some ''key'' \<rparr>"

section \<open>Notions used to state the properties\<close>

text \<open>A thrown value that carries a message: what the \<^verbatim>\<open>catch\<close> blocks expect.\<close>

fun has_message :: "exn \<Rightarrow> bool" where
  "has_message (Error m) = True"
| "has_message e = False"

text \<open>
  A candidate that, tried in state \<open>s\<close>, throws an error with a message or resolves to an
  element that is not visible: \<^verbatim>\<open>driver.$\<close> throws, or \<^verbatim>\<open>isDisplayed\<close> throws, or it
  answers \<^verbatim>\<open>false\<close>.
\<close>

definition throws_or_not_visible ::
  "('w, 'e) provider \<Rightarrow> strategy \<Rightarrow> ('w, 'e) system \<Rightarrow> bool" where
  "throws_or_not_visible ops strategy s =
     (case query ops (selector strategy) (world s) of
        (Inl e, w) \<Rightarrow> has_message e
      | (Inr el, w) \<Rightarrow>
          (case isDisplayed ops el w of
             (Inl e, w') \<Rightarrow> has_message e
           | (Inr visible, w') \<Rightarrow> \<not> visible))"

text \<open>
  Every candidate of the list is such a candidate in the state in which the loop
  reaches it.
\<close>

fun all_throw_or_not_visible ::
  "('w, 'e) provider \<Rightarrow> string \<Rightarrow> strategy list \<Rightarrow> 'e option \<Rightarrow> ('w, 'e) system \<Rightarrow> bool" where
  "all_throw_or_not_visible ops prefix [] element s = True"
| "all_throw_or_not_visible ops prefix (strategy # rest) element s =
     (throws_or_not_visible ops strategy s \<and>
      (case try_strategy ops prefix strategy element s of
         (Inl e, s') \<Rightarrow> False
       | (Inr (broke, element'), s') \<Rightarrow> all_throw_or_not_visible ops prefix rest element' s'))"

text \<open>A rejection with \<^verbatim>\<open>null\<close> or \<^verbatim>\<open>undefined\<close>.\<close>

fun rejects_with_nothing :: "exn + 'a \<Rightarrow> bool" where
  "rejects_with_nothing (Inl ThrownNull) = True"
| "rejects_with_nothing (Inl ThrownUndefined) = True"
| "rejects_with_nothing outcome = False"

fun is_click :: "'e call \<Rightarrow> bool" where
  "is_click (Click el) = True"
| "is_click c = False"

fun is_teardown :: "'e call \<Rightarrow> bool" where
  "is_teardown DeleteSession = True"
| "is_teardown c = False"

text \<open>
  The session gets opened by a run that starts in state \<open>s\<close>: the credentials are
  there and \<^verbatim>\<open>remote\<close> returns a driver.
\<close>

definition session_opens ::
  "('w, 'e) provider \<Rightarrow> env \<Rightarrow> string \<Rightarrow> ('w, 'e) system \<Rightarrow> bool" where
  "session_opens ops env deviceName s =
     (case credentials env s of
        (Inl e, s') \<Rightarrow> False
      | (Inr (username, accessKey), s') \<Rightarrow>
          (case now ops (world s') of
             (t, w) \<Rightarrow>
               (case remote ops (build_capabilities deviceName username accessKey t) w of
                  (Inl e, w') \<Rightarrow> False
                | (Inr u, w') \<Rightarrow> True)))"

text \<open>
  A computation that leaves the variable \<open>driver\<close> alone and never asks for the
  session to be deleted.
\<close>

definition quiet :: "('a, ('w, 'e) system) action \<Rightarrow> bool" where
  "quiet m =
     (\<forall>s r s'. m s = (r, s') \<longrightarrow>
        driver s' = driver s
        \<and> filter is_teardown (calls s') = filter is_teardown (calls s))"

section \<open>Basic facts about the device run\<close>

lemma print_apply: "print l s = (Inr (), s\<lparr>console := console s @ [l]\<rparr>)"
  by (simp add: print_def)

lemma liftE_apply: "liftE outcome s = (outcome, s)"
  by (simp add: liftE_def)

lemma Date_now_apply:
  "now ops (world s) = (t, w) \<Longrightarrow> Date_now ops s = (Inr t, s\<lparr>world := w\<rparr>)"
  by (simp add: Date_now_def)

lemma call_apply:
  "operation (world s) = (r, w) \<Longrightarrow> call c operation s = (r, s\<lparr>world := w, calls := calls s @ [c]\<rparr>)"
  by (simp add: call_def)

lemma has_message_iff: "has_message e \<longleftrightarrow> (\<exists>m. e = Error m)"
  by (cases e) simp_all

lemma read_message_throws_Error: "read_message e = Inl t \<Longrightarrow> has_message t"
  by (cases e) (auto simp: TypeError_reading_def)

lemma message_for_throws_Error: "message_for method e = Inl t \<Longrightarrow> has_message t"
  by (cases e) (auto simp: message_for_def TypeError_reading_def)

lemma message_for_Error: "message_for method (Error m) = Inr m"
  by (simp add: message_for_def)

lemma classify_apply: "\<exists>ls. classify msg s = (Inr (), s\<lparr>console := console s @ ls\<rparr>)"
proof -
  have "\<exists>ls. s = s\<lparr>console := console s @ ls\<rparr>"
    by (rule exI [of _ "[]"]) simp
  then show ?thesis
    by (auto simp: classify_def print_apply returnE_def)
qed

lemma report_failure_Error:
  assumes "now ops (world s) = (endTime, w)"
  shows "\<exists>ls. report_failure ops dev startTime (Error m) s =
           (Inr \<lparr> device = dev, success = False, duration = round_seconds (endTime - startTime),
                  error = Some m, sessionId = None \<rparr>,
            s\<lparr>world := w, console := console s @ ls\<rparr>)"
proof -
  let ?s1 = "s\<lparr>world := w, console := console s @
               [[JStr ('' Error on '' @ dev @ '' after ''
                       @ show_int (round_seconds (endTime - startTime)) @ '' seconds:'')],
                [JStr ('' '' @ m)]]\<rparr>"
  obtain ls where c: "classify m ?s1 = (Inr (), ?s1\<lparr>console := console ?s1 @ ls\<rparr>)"
    using classify_apply by blast
  have "report_failure ops dev startTime (Error m) s =
           (Inr \<lparr> device = dev, success = False, duration = round_seconds (endTime - startTime),
                  error = Some m, sessionId = None \<rparr>,
            ?s1\<lparr>console := console ?s1 @ ls\<rparr>)"
    using c
    by (simp add: report_failure_def bindE_def Date_now_apply [OF assms] print_apply returnE_def
          liftE_apply message_for_Error shown_def)
  then show ?thesis by auto
qed

lemma report_failure_cases:
  assumes "report_failure ops dev startTime e s = (out, s')"
  shows "(\<exists>t. out = Inl (Error t))
         \<or> (\<exists>m endTime. e = Error m \<and>
               out = Inr \<lparr> device = dev, success = False,
                            duration = round_seconds (endTime - startTime),
                            error = Some m, sessionId = None \<rparr>)"
proof (cases e)
  case (Error m)
  obtain endTime w where "now ops (world s) = (endTime, w)"
    by (cases "now ops (world s)")
  from report_failure_Error [OF this, of dev startTime m] assms Error show ?thesis
    by auto
next
  case NoMessage
  with assms show ?thesis
    by (auto simp: report_failure_def bindE_def Date_now_def print_apply liftE_apply
          message_for_def TypeError_reading_def split: prod.splits)
next
  case ThrownNull
  with assms show ?thesis
    by (auto simp: report_failure_def bindE_def Date_now_def print_apply liftE_apply
          TypeError_reading_def split: prod.splits)
next
  case ThrownUndefined
  with assms show ?thesis
    by (auto simp: report_failure_def bindE_def Date_now_def print_apply liftE_apply
          TypeError_reading_def split: prod.splits)
qed

lemma teardown_apply:
  "teardown ops dev s =
     (if driver s then
        (case deleteSession ops (world s) of
           (Inr u, w) \<Rightarrow>
             (Inr (), s\<lparr>world := w, calls := calls s @ [DeleteSession],
                        console := console s @ [[JStr ('' Session for '' @ dev @ '' closed'')]]\<rparr>)
         | (Inl e, w) \<Rightarrow>
             (case read_message e of
                Inl typeError \<Rightarrow>
                  (Inl typeError, s\<lparr>world := w, calls := calls s @ [DeleteSession]\<rparr>)
              | Inr m \<Rightarrow>
                  (Inr (), s\<lparr>world := w, calls := calls s @ [DeleteSession],
                             console := console s @
                               [[JStr ('' Problem closing session for '' @ dev @ '':''),
                                 case m of Some t \<Rightarrow> JStr t | None \<Rightarrow> JUndefined]]\<rparr>)))
      else (Inr (), s))"
  by (simp add: teardown_def try_catch_def bindE_def call_def print_apply returnE_def liftE_apply
           split: prod.splits sum.splits)

lemma teardown_throws_Error: "teardown ops dev s = (Inl t, s') \<Longrightarrow> has_message t"
  by (auto simp: teardown_apply read_message_throws_Error
           split: if_splits prod.splits sum.splits)

lemma teardown_calls:
  "calls (snd (teardown ops dev s)) = calls s @ (if driver s then [DeleteSession] else [])"
  by (simp add: teardown_apply split: prod.splits sum.splits)

lemma teardown_returns:
  assumes "deleteSession ops (world s) = (closed, w)" and "\<not> rejects_with_nothing closed"
  shows "teardown ops dev s =
           (Inr (),
            if driver s
            then s\<lparr>world := w, calls := calls s @ [DeleteSession],
                   console := console s @
                     [case closed of
                        Inr u \<Rightarrow> [JStr ('' Session for '' @ dev @ '' closed'')]
                      | Inl (Error m) \<Rightarrow>
                          [JStr ('' Problem closing session for '' @ dev @ '':''), JStr m]
                      | Inl e \<Rightarrow>
                          [JStr ('' Problem closing session for '' @ dev @ '':''), JUndefined]]\<rparr>
            else s)"
proof (cases closed)
  case (Inl e)
  with assms show ?thesis
    by (cases e) (simp_all add: teardown_apply)
next
  case (Inr u)
  with assms show ?thesis
    by (simp add: teardown_apply)
qed

lemma run_decompose:
  assumes "now ops (world s) = (t0, w0)"
      and "guarded_flow ops env config dev t0 (s\<lparr>driver := False, world := w0\<rparr>) = (out, s1)"
  shows "runPlayStoreDownloadFlow ops env config dev s =
           (case teardown ops dev s1 of
              (Inl e, s2) \<Rightarrow> (Inl e, s2)
            | (Inr u, s2) \<Rightarrow> (out, s2))"
  using assms
  by (simp add: runPlayStoreDownloadFlow_def bindE_def Date_now_def try_finally_def)

lemma flow_returns_success:
  assumes "flow ops env config dev t0 s = (Inr r, s')"
  shows "device r = dev \<and> success r \<and> error r = None \<and> (\<exists>sid. sessionId r = Some sid)"
  using assms
  by (auto simp: flow_def bindE_def returnE_def split: prod.splits sum.splits)

lemma guarded_flow_cases:
  assumes "guarded_flow ops env config dev t0 s = (out, s1)"
  shows "(\<exists>t. out = Inl (Error t))
       \<or> (\<exists>r. out = Inr r \<and> device r = dev \<and> success r \<and> error r = None
               \<and> (\<exists>sid. sessionId r = Some sid))
       \<or> (\<exists>r m. out = Inr r \<and> device r = dev \<and> \<not> success r \<and> error r = Some m
               \<and> sessionId r = None)"
proof (cases "flow ops env config dev t0 s")
  case (Pair fout s')
  show ?thesis
  proof (cases fout)
    case (Inl e)
    with assms Pair have "report_failure ops dev t0 e s' = (out, s1)"
      by (simp add: guarded_flow_def try_catch_def)
    from report_failure_cases [OF this] show ?thesis by auto
  next
    case (Inr r)
    with assms Pair have "out = Inr r"
      by (simp add: guarded_flow_def try_catch_def)
    with flow_returns_success [of ops env config dev t0 s r s'] Pair Inr show ?thesis
      by auto
  qed
qed

lemma run_cases:
  assumes "runPlayStoreDownloadFlow ops env config dev s = (out, s')"
  shows "(\<exists>t. out = Inl (Error t))
       \<or> (\<exists>r. out = Inr r \<and> device r = dev \<and> success r \<and> error r = None
               \<and> (\<exists>sid. sessionId r = Some sid))
       \<or> (\<exists>r m. out = Inr r \<and> device r = dev \<and> \<not> success r \<and> error r = Some m
               \<and> sessionId r = None)"
proof -
  obtain t0 w0 where t0: "now ops (world s) = (t0, w0)"
    by (cases "now ops (world s)")
  obtain gout s1 where g: "guarded_flow ops env config dev t0 (s\<lparr>driver := False, world := w0\<rparr>) = (gout, s1)"
    by (cases "guarded_flow ops env config dev t0 (s\<lparr>driver := False, world := w0\<rparr>)")
  obtain tout s2 where t: "teardown ops dev s1 = (tout, s2)"
    by (cases "teardown ops dev s1")
  show ?thesis
  proof (cases tout)
    case (Inl e)
    with t have "has_message e" by (simp add: teardown_throws_Error)
    moreover from run_decompose [OF t0 g] t Inl assms have "out = Inl e" by simp
    ultimately show ?thesis by (auto simp: has_message_iff)
  next
    case (Inr u)
    with run_decompose [OF t0 g] t assms have "out = gout" by simp
    with guarded_flow_cases [OF g] show ?thesis by simp
  qed
qed

lemma run_throws_Error:
  "runPlayStoreDownloadFlow ops env config dev s = (Inl e, s') \<Longrightarrow> has_message e"
  using run_cases [of ops env config dev s "Inl e" s'] by auto

lemma run_of_failed_flow:
  assumes "now ops (world s) = (startTime, w0)"
      and "flow ops env config dev startTime (s\<lparr>driver := False, world := w0\<rparr>) = (Inl (Error m), s1)"
      and "now ops (world s1) = (endTime, w1)"
      and "deleteSession ops w1 = (closed, w2)"
      and "\<not> driver s1 \<or> \<not> rejects_with_nothing closed"
  shows "\<exists>ls. runPlayStoreDownloadFlow ops env config dev s =
           (Inr \<lparr> device = dev, success = False, duration = round_seconds (endTime - startTime),
                  error = Some m, sessionId = None \<rparr>,
            snd (teardown ops dev (s1\<lparr>world := w1, console := console s1 @ ls\<rparr>)))"
proof -
  obtain ls where "report_failure ops dev startTime (Error m) s1 =
           (Inr \<lparr> device = dev, success = False, duration = round_seconds (endTime - startTime),
                  error = Some m, sessionId = None \<rparr>,
            s1\<lparr>world := w1, console := console s1 @ ls\<rparr>)"
    using report_failure_Error [OF assms(3)] by blast
  then have g: "guarded_flow ops env config dev startTime (s\<lparr>driver := False, world := w0\<rparr>) =
           (Inr \<lparr> device = dev, success = False, duration = round_seconds (endTime - startTime),
                  error = Some m, sessionId = None \<rparr>,
            s1\<lparr>world := w1, console := console s1 @ ls\<rparr>)"
    using assms(2) by (simp add: guarded_flow_def try_catch_def)
  let ?s2 = "s1\<lparr>world := w1, console := console s1 @ ls\<rparr>"
  have "fst (teardown ops dev ?s2) = Inr ()"
  proof (cases "driver s1")
    case True
    with assms(5) have n: "\<not> rejects_with_nothing closed" by simp
    have "deleteSession ops (world ?s2) = (closed, w2)" using assms(4) by simp
    from teardown_returns [OF this n] show ?thesis by simp
  next
    case False
    then show ?thesis by (simp add: teardown_apply)
  qed
  with run_decompose [OF assms(1) g]
  have "runPlayStoreDownloadFlow ops env config dev s =
           (Inr \<lparr> device = dev, success = False, duration = round_seconds (endTime - startTime),
                  error = Some m, sessionId = None \<rparr>,
            snd (teardown ops dev ?s2))"
    by (cases "teardown ops dev ?s2") auto
  then show ?thesis by (rule exI)
qed

lemmas flow_defs =
  flow_def open_session_def credentials_def search_box_step_def open_detail_page_def
  type_query_step_def app_result_step_def install_step_def try_strategy_def
  searchStrategies_def appResultStrategies_def appToSearch_of_def DEFAULT_CONFIG_def
  signed_in_def bindE_def returnE_def throwE_def liftE_def Date_now_def call_def print_def
  attempt_failed_def message_for_def scripted_def idle_def

lemmas run_defs =
  runPlayStoreDownloadFlow_def try_finally_def guarded_flow_def try_catch_def
  report_failure_def classify_def teardown_def shown_def TypeError_reading_def
  round_seconds_def show_int_def show_nat.simps

section \<open>Configuration loading\<close>

lemma load_config_returns: "\<exists>cfg s1. load_config required s = (Inr cfg, s1)"
  by (cases required)
     (simp_all add: load_config_def try_catch_def bindE_def returnE_def liftE_def print_apply)

lemma load_config_falls_back_if_writable:
  assumes "devices c = JUndefined \<or> \<not> isArray (devices c) \<or> devices c = JArr []"
      and "devices_writable c"
  shows "\<exists>cfg. load_config (Inr c) s =
            (Inr cfg, s\<lparr>console := console s @ [[JStr ''config.js file loaded''],
                           [JStr '' Invalid config.devices, using default devices'']]\<rparr>)
          \<and> devices cfg = JArr [''Galaxy S23'', ''Galaxy S22'', ''Pixel 7'', ''Pixel 6'',
                                ''Galaxy S24'']"
proof -
  have bad: "\<not> truthy (devices c) \<or> \<not> isArray (devices c) \<or> length_is_zero (devices c)"
    using assms(1) by (cases "devices c") auto
  then show ?thesis
    using assms(2)
    by (simp add: load_config_def try_catch_def bindE_def returnE_def liftE_def print_apply
                  DEFAULT_CONFIG_def assign_devices_def assign_settings_def)
qed

lemma load_config_unwritable:
  assumes "\<not> devices_writable c" and "truthy (devices c)" and "\<not> isArray (devices c)"
  shows "\<exists>cfg. load_config (Inr c) s =
            (Inr cfg, s\<lparr>console := console s @ [[JStr ''config.js file loaded''],
                           [JStr '' Invalid config.devices, using default devices'']]\<rparr>)
          \<and> devices cfg = devices c"
  using assms
  by (simp add: load_config_def try_catch_def bindE_def returnE_def liftE_def print_apply
                assign_devices_def assign_settings_def)

lemma runAllDevices_not_an_array:
  assumes "truthy (devices cfg)" and "\<not> isArray (devices cfg)"
  shows "\<exists>s'. runAllDevices ops env cfg s = (Inl (Error ''devices.join is not a function''), s')"
  using assms
  by (cases "devices cfg")
     (simp_all add: runAllDevices_def runAllDevices_with_def bindE_def Date_now_def throwE_def
        split: prod.splits)

text \<open>
  Claim C9 at an export that cannot be written.  When the property \<^verbatim>\<open>devices\<close> of
  the loaded configuration cannot be assigned (the export is frozen) and holds a
  truthy value that is not an array, such as the categorized object of
  \<^verbatim>\<open>src/config.js\<close>, the loader prints its warning and assigns the built-in list, the
  assignment is ignored, and the loader yields the configuration with the value still
  in place; \<^verbatim>\<open>runAllDevices\<close> throws on it, and the process ends with code 1.
\<close>

theorem frozen_export_keeps_its_devices:
  assumes "\<not> devices_writable c" and "truthy (devices c)" and "\<not> isArray (devices c)"
  shows "\<exists>cfg s1. load_config (Inr c) s = (Inr cfg, s1)
           \<and> devices cfg = devices c
           \<and> console s1 = console s @ [[JStr ''config.js file loaded''],
                                        [JStr '' Invalid config.devices, using default devices'']]
           \<and> fst (runAllDevices ops env cfg s1) = Inl (Error ''devices.join is not a function'')
           \<and> fst (main_module ops env (Inr ()) (Inr c) s) = 1"
proof -
  let ?s1 = "s\<lparr>console := console s @ [[JStr ''config.js file loaded''],
                           [JStr '' Invalid config.devices, using default devices'']]\<rparr>"
  obtain cfg where l: "load_config (Inr c) s = (Inr cfg, ?s1)" and d: "devices cfg = devices c"
    using load_config_unwritable [OF assms] by blast
  from assms d have "truthy (devices cfg)" and "\<not> isArray (devices cfg)" by simp_all
  from runAllDevices_not_an_array [OF this] obtain s2 where
    r: "runAllDevices ops env cfg ?s1 = (Inl (Error ''devices.join is not a function''), s2)"
    by blast
  have m: "fst (main_module ops env (Inr ()) (Inr c) s) = 1"
    using l r
    by (simp add: main_module_def on_settled_def bindE_def liftE_def print_def returnE_def)
  have c: "console ?s1 = console s @ [[JStr ''config.js file loaded''],
                                        [JStr '' Invalid config.devices, using default devices'']]"
    by simp
  have f: "fst (runAllDevices ops env cfg ?s1) = Inl (Error ''devices.join is not a function'')"
    using r by simp
  from l d c f m show ?thesis by (intro exI conjI)
qed

text \<open>\<^verbatim>\<open>src/config.js\<close> with its export frozen.\<close>

theorem frozen_export_keeps_its_devices_witness:
  "\<not> devices_writable frozen_config \<and> truthy (devices frozen_config)
   \<and> \<not> isArray (devices frozen_config)
   \<and> (\<exists>cfg s1. load_config (Inr frozen_config) idle = (Inr cfg, s1)
         \<and> devices cfg = devices shipped_config
         \<and> console s1 = [[JStr ''config.js file loaded''],
                          [JStr '' Invalid config.devices, using default devices'']]
         \<and> fst (runAllDevices unreachable signed_in cfg s1)
             = Inl (Error ''devices.join is not a function'')
         \<and> fst (main_module unreachable signed_in (Inr ()) (Inr frozen_config) idle) = 1)"
proof -
  have a: "\<not> devices_writable frozen_config" and b: "truthy (devices frozen_config)"
    and c: "\<not> isArray (devices frozen_config)"
    by (simp_all add: frozen_config_def shipped_config_def)
  have d: "devices frozen_config = devices shipped_config"
    by (simp add: frozen_config_def)
  have e: "console idle = []"
    by (simp add: idle_def)
  from frozen_export_keeps_its_devices [OF a b c, of idle unreachable signed_in]
  have "\<exists>cfg s1. load_config (Inr frozen_config) idle = (Inr cfg, s1)
         \<and> devices cfg = devices shipped_config
         \<and> console s1 = [[JStr ''config.js file loaded''],
                          [JStr '' Invalid config.devices, using default devices'']]
         \<and> fst (runAllDevices unreachable signed_in cfg s1)
             = Inl (Error ''devices.join is not a function'')
         \<and> fst (main_module unreachable signed_in (Inr ()) (Inr frozen_config) idle) = 1"
    unfolding d e by simp
  with a b c show ?thesis by (intro conjI)
qed

section \<open>What a device run returns and what it throws\<close>

text \<open>
  Claim C3 at a cloud that rejects the session request with a value that is not an
  \<^verbatim>\<open>Error\<close> object.  The \<^verbatim>\<open>catch\<close> block of the run prints its two lines, the second
  with \<^verbatim>\<open>undefined\<close> for the message, then calls \<^verbatim>\<open>error.message.includes\<close>, which
  throws a \<^verbatim>\<open>TypeError\<close>: the run ends by throwing it and returns no RunResult.
\<close>

theorem plain_rejection_escapes_the_run:
  "fst (runPlayStoreDownloadFlow rejects_plainly signed_in DEFAULT_CONFIG ''Pixel 7'' idle)
     = Inl (TypeError_reading ''undefined'' ''includes'')
   \<and> console (snd (runPlayStoreDownloadFlow rejects_plainly signed_in DEFAULT_CONFIG
                      ''Pixel 7'' idle))
     = [[JStr '' Error on Pixel 7 after 120 seconds:''], [JStr '' undefined'']]"
  by (simp add: run_defs rejects_plainly_def flow_defs)

section \<open>Missing credentials\<close>

text \<open>
  Claim C4.  When the user name or the access key is absent (unset, or empty, which
  \<^verbatim>\<open>!username\<close> treats alike), the run returns a failed result whose message is the
  missing-credentials one, and it has made no remote call: the record of calls is what
  it was when the run began, so no session was requested and none is deleted.
\<close>

theorem missing_credentials_fail_fast:
  assumes "LT_USERNAME env \<in> {None, Some []} \<or> LT_ACCESS_KEY env \<in> {None, Some []}"
  shows "\<exists>r s'. runPlayStoreDownloadFlow ops env config dev s = (Inr r, s')
           \<and> \<not> success r
           \<and> error r = Some '' LambdaTest credentials missing! Check your .env file''
           \<and> calls s' = calls s"
proof -
  obtain startTime w0 where t0: "now ops (world s) = (startTime, w0)"
    by (cases "now ops (world s)")
  let ?s0 = "s\<lparr>driver := False, world := w0\<rparr>"
  obtain endTime w1 where t1: "now ops (world ?s0) = (endTime, w1)"
    by (cases "now ops (world ?s0)")
  obtain closed w2 where d: "deleteSession ops w1 = (closed, w2)"
    by (cases "deleteSession ops w1")
  have c: "credentials env ?s0 =
             (Inl (Error '' LambdaTest credentials missing! Check your .env file''), ?s0)"
    using assms by (auto simp: credentials_def throwE_def split: option.splits)
  have f: "flow ops env config dev startTime ?s0 =
             (Inl (Error '' LambdaTest credentials missing! Check your .env file''), ?s0)"
    by (simp add: flow_def open_session_def bindE_def c)
  have "\<not> driver ?s0 \<or> \<not> rejects_with_nothing closed" by simp
  from run_of_failed_flow [OF t0 f t1 d this] show ?thesis
    by (auto simp: teardown_apply)
qed

text \<open>The access key is unset: no call reaches the cloud.\<close>

theorem missing_credentials_fail_fast_witness:
  "LT_ACCESS_KEY \<lparr> LT_USERNAME = Some ''user'', LT_ACCESS_KEY = None \<rparr> \<in> {None, Some []}
   \<and> (\<exists>r s'. runPlayStoreDownloadFlow (scripted (\<lambda>sel. True) (\<lambda>el. True) (\<lambda>el. True))
                 \<lparr> LT_USERNAME = Some ''user'', LT_ACCESS_KEY = None \<rparr>
                 DEFAULT_CONFIG ''Galaxy S23'' idle = (Inr r, s')
           \<and> \<not> success r
           \<and> error r = Some '' LambdaTest credentials missing! Check your .env file''
           \<and> calls s' = [])"
  using missing_credentials_fail_fast
          [of "\<lparr> LT_USERNAME = Some ''user'', LT_ACCESS_KEY = None \<rparr>"
              "scripted (\<lambda>sel. True) (\<lambda>el. True) (\<lambda>el. True)" DEFAULT_CONFIG "''Galaxy S23''" idle]
  by (simp add: idle_def)

section \<open>The session identifier in the result\<close>

text \<open>
  Claim C10.  A failed run returns \<^verbatim>\<open>sessionId: null\<close>, whatever happened before
  the failure; a session identifier is only in the result of a successful run.
\<close>

theorem failed_run_has_no_session_id:
  assumes "runPlayStoreDownloadFlow ops env config dev s = (Inr r, s')"
      and "\<not> success r"
  shows "sessionId r = None"
  using run_cases [OF assms(1)] assms(2) by auto

text \<open>
  No search box anywhere: the session is opened and its identifier obtained, then the
  run fails.
\<close>

lemma no_search_box_flow:
  "\<exists>s1. flow (scripted (\<lambda>sel. False) (\<lambda>el. True) (\<lambda>el. True)) signed_in DEFAULT_CONFIG ''Pixel 6'' 0
          (idle\<lparr>driver := False, world := 0\<rparr>) = (Inl (Error '' Search box not found.''), s1)
        \<and> GetSessionId \<in> set (calls s1)"
  by (simp add: flow_defs)

theorem failed_run_has_no_session_id_witness:
  "\<exists>r s'. runPlayStoreDownloadFlow (scripted (\<lambda>sel. False) (\<lambda>el. True) (\<lambda>el. True)) signed_in
             DEFAULT_CONFIG ''Pixel 6'' idle = (Inr r, s')
          \<and> GetSessionId \<in> set (calls s') \<and> \<not> success r \<and> sessionId r = None"
proof -
  let ?P = "scripted (\<lambda>sel. False) (\<lambda>el. True) (\<lambda>el. True)"
  obtain s1 where f: "flow ?P signed_in DEFAULT_CONFIG ''Pixel 6'' 0
          (idle\<lparr>driver := False, world := 0\<rparr>) = (Inl (Error '' Search box not found.''), s1)"
    and g: "GetSessionId \<in> set (calls s1)"
    using no_search_box_flow by blast
  have t0: "now ?P (world idle) = (0, 0)"
    by (simp add: scripted_def idle_def)
  have t1: "now ?P (world s1) = (world s1, world s1)"
    by (simp add: scripted_def)
  have d: "deleteSession ?P (world s1) = (Inr (), world s1)"
    by (simp add: scripted_def)
  have n: "\<not> driver s1 \<or> \<not> rejects_with_nothing (Inr () :: exn + unit)"
    by simp
  obtain ls where r: "runPlayStoreDownloadFlow ?P signed_in DEFAULT_CONFIG ''Pixel 6'' idle =
      (Inr \<lparr> device = ''Pixel 6'', success = False, duration = round_seconds (world s1 - 0),
              error = Some '' Search box not found.'', sessionId = None \<rparr>,
       snd (teardown ?P ''Pixel 6'' (s1\<lparr>world := world s1, console := console s1 @ ls\<rparr>)))"
    using run_of_failed_flow [OF t0 f t1 d n] by blast
  have "GetSessionId \<in> set (calls (snd (teardown ?P ''Pixel 6''
           (s1\<lparr>world := world s1, console := console s1 @ ls\<rparr>))))"
    using g by (simp add: teardown_calls)
  with failed_run_has_no_session_id [OF r] r show ?thesis
    by simp
qed

section \<open>The batch\<close>

lemma devices_loop_results:
  assumes errs: "\<forall>d s1 e s2. run d s1 = (Inl e, s2) \<longrightarrow> has_message e"
  shows "\<exists>new sc' fc' s'.
           devices_loop run ops ds (results, sc, fc) s = (Inr (results @ new, sc', fc'), s') \<and>
           list_all2 (\<lambda>d r. (\<exists>s1 s2. run d s1 = (Inr r, s2))
                          \<or> (\<exists>m s1 s2. run d s1 = (Inl (Error m), s2) \<and>
                                r = \<lparr> device = d, success = False, duration = 0,
                                      error = Some m, sessionId = None \<rparr>)) ds new"
proof (induction ds arbitrary: results sc fc s)
  case Nil
  then show ?case by simp
next
  case (Cons d ds)
  let ?P = "\<lambda>d r. (\<exists>s1 s2. run d s1 = (Inr r, s2))
                          \<or> (\<exists>m s1 s2. run d s1 = (Inl (Error m), s2) \<and>
                                r = \<lparr> device = d, success = False, duration = 0,
                                      error = Some m, sessionId = None \<rparr>)"
  obtain out s1 where r: "run d s = (out, s1)" by (cases "run d s")
  show ?case
  proof (cases out)
    case (Inl e)
    from r Inl errs have "has_message e" by blast
    then obtain m where e: "e = Error m"
      by (auto simp: has_message_iff)
    let ?f = "\<lparr> device = d, success = False, duration = 0,
                error = Some m, sessionId = None \<rparr>"
    let ?s2 = "s1\<lparr>console := console s1 @
                  [[JStr ('' '' @ d @ '': Completely failed - '' @ take 100 m @ ''...'')]]\<rparr>"
    from Cons.IH [of "results @ [?f]" sc "fc + 1" ?s2] obtain new sc' fc' s' where
      l: "devices_loop run ops ds (results @ [?f], sc, fc + 1) ?s2
            = (Inr ((results @ [?f]) @ new, sc', fc'), s')"
      and p: "list_all2 ?P ds new"
      by blast
    have "devices_loop run ops (d # ds) (results, sc, fc) s
            = (Inr (results @ (?f # new), sc', fc'), s')"
      using r Inl e l by (simp add: message_for_Error)
    moreover have "?P d ?f" using r Inl e by blast
    with p have "list_all2 ?P (d # ds) (?f # new)" by simp
    ultimately show ?thesis by blast
  next
    case (Inr res)
    let ?s2 = "if ds \<noteq> [] then s1\<lparr>world := setTimeout ops 15000 (world s1)\<rparr> else s1"
    from Cons.IH [of "results @ [res]" "if success res then sc + 1 else sc"
                     "if success res then fc else fc + 1" ?s2]
    obtain new sc' fc' s' where
      l: "devices_loop run ops ds
            (results @ [res], if success res then sc + 1 else sc,
             if success res then fc else fc + 1) ?s2
            = (Inr ((results @ [res]) @ new, sc', fc'), s')"
      and p: "list_all2 ?P ds new"
      by blast
    have "devices_loop run ops (d # ds) (results, sc, fc) s
            = (Inr (results @ (res # new), sc', fc'), s')"
      using r Inr l by simp
    moreover have "?P d res" using r Inr by blast
    with p have "list_all2 ?P (d # ds) (res # new)" by simp
    ultimately show ?thesis by blast
  qed
qed







section \<open>The exit code\<close>

lemma runAllDevices_throws:
  assumes "runAllDevices ops env cfg s = (Inl e, s')"
  shows "e = Error ''devices.join is not a function''
         \<and> truthy (devices cfg) \<and> \<not> isArray (devices cfg) \<and> calls s' = calls s"
proof (cases "if truthy (devices cfg) then devices cfg else devices DEFAULT_CONFIG")
  case (JArr ds)
  have errs: "\<forall>d s1 e s2. runPlayStoreDownloadFlow ops env cfg d s1 = (Inl e, s2)
                 \<longrightarrow> has_message e"
    by (intro allI impI) (rule run_throws_Error)
  obtain t w where t0: "now ops (world s) = (t, w)" by (cases "now ops (world s)")
  from devices_loop_results [OF errs, of ops ds "[]" 0 0 "s\<lparr>world := w\<rparr>"]
  obtain rs sc fc s1 where
    "devices_loop (runPlayStoreDownloadFlow ops env cfg) ops ds ([], 0, 0) (s\<lparr>world := w\<rparr>)
       = (Inr (rs, sc, fc), s1)"
    by (elim exE conjE) simp
  with assms JArr t0 show ?thesis
    by (auto simp: runAllDevices_def runAllDevices_with_def bindE_def Date_now_def returnE_def
             split: prod.splits)
qed (use assms in \<open>auto simp: runAllDevices_def runAllDevices_with_def bindE_def Date_now_def
       throwE_def DEFAULT_CONFIG_def split: prod.splits if_splits\<close>)

lemma runAllDevices_throws_Error:
  assumes "runAllDevices ops env cfg s = (Inl e, s')"
  shows "has_message e"
  using runAllDevices_throws [OF assms] by simp

lemma exit_code_iff: "exit_code results = (if \<exists>r\<in>set results. success r then 0 else 1)"
  by (auto simp: exit_code_def filter_empty_conv)

lemma on_settled_code:
  assumes "outcome = Inr rs \<or> (\<exists>m. outcome = Inl (Error m))"
  shows "fst (on_settled outcome s) =
           Inr (case outcome of
                  Inr rs \<Rightarrow> if \<exists>r\<in>set rs. success r then 0 else 1
                | Inl err \<Rightarrow> 1)"
  using assms
  by (auto simp: on_settled_def returnE_def bindE_def liftE_def print_def exit_code_iff)

text \<open>
  Claim C8.  The module run from the top.  When loading a dependency throws, before
  the batch, the exit code is 1.  Otherwise the configuration loader yields a
  configuration, and the exit code is decided by the batch on it: 0 if the batch
  returned results of which one is a success, 1 if it returned results without a
  success, and 1 if the batch threw.  The batch throws only when the device list is
  not an array, and then it has started no device run.
\<close>

theorem exit_code_by_successes:
  "(dependencies = Inl e \<longrightarrow> fst (main_module ops env dependencies required s) = 1)
   \<and> (dependencies = Inr () \<longrightarrow>
        (\<exists>cfg s1 outcome s2.
            load_config required s = (Inr cfg, s1)
          \<and> runAllDevices ops env cfg s1 = (outcome, s2)
          \<and> fst (main_module ops env dependencies required s) =
              (case outcome of
                 Inr rs \<Rightarrow> if \<exists>r\<in>set rs. success r then 0 else 1
               | Inl err \<Rightarrow> 1)
          \<and> (case outcome of
                 Inr rs \<Rightarrow> True
               | Inl err \<Rightarrow> \<not> isArray (devices cfg) \<and> calls s2 = calls s1)))"
proof (intro conjI impI)
  assume "dependencies = Inl e"
  then show "fst (main_module ops env dependencies required s) = 1"
    by (simp add: main_module_def)
next
  assume dep: "dependencies = Inr ()"
  obtain cfg s1 where l: "load_config required s = (Inr cfg, s1)"
    using load_config_returns by blast
  obtain outcome s2 where r: "runAllDevices ops env cfg s1 = (outcome, s2)"
    by (cases "runAllDevices ops env cfg s1")
  have "(\<exists>rs. outcome = Inr rs) \<or> (\<exists>m. outcome = Inl (Error m))"
  proof (cases outcome)
    case (Inl err)
    with r have "has_message err" by (simp add: runAllDevices_throws_Error)
    with Inl show ?thesis by (simp add: has_message_iff)
  next
    case (Inr rs)
    then show ?thesis by simp
  qed
  then obtain code where c: "fst (on_settled outcome s2) = Inr code"
    and v: "code = (case outcome of
                      Inr rs \<Rightarrow> if \<exists>r\<in>set rs. success r then 0 else 1
                    | Inl err \<Rightarrow> 1)"
    using on_settled_code [of outcome _ s2] by auto
  have "fst (main_module ops env dependencies required s) = code"
    using dep l r c by (cases "on_settled outcome s2") (simp add: main_module_def)
  moreover have "case outcome of
                   Inr rs \<Rightarrow> True
                 | Inl err \<Rightarrow> \<not> isArray (devices cfg) \<and> calls s2 = calls s1"
  proof (cases outcome)
    case (Inl err)
    with r show ?thesis by (simp add: runAllDevices_throws)
  next
    case (Inr rs)
    then show ?thesis by simp
  qed
  ultimately show "\<exists>cfg s1 outcome s2.
            load_config required s = (Inr cfg, s1)
          \<and> runAllDevices ops env cfg s1 = (outcome, s2)
          \<and> fst (main_module ops env dependencies required s) =
              (case outcome of
                 Inr rs \<Rightarrow> if \<exists>r\<in>set rs. success r then 0 else 1
               | Inl err \<Rightarrow> 1)
          \<and> (case outcome of
                 Inr rs \<Rightarrow> True
               | Inl err \<Rightarrow> \<not> isArray (devices cfg) \<and> calls s2 = calls s1)"
    using l r v by blast
qed

lemmas batch_defs =
  main_module_def on_settled_def exit_code_def load_config_def runAllDevices_def
  runAllDevices_with_def assign_devices_def assign_settings_def one_device_config_def
  frozen_config_def shipped_config_def try_catch_def

lemma load_one_device:
  "load_config (Inr one_device_config) idle =
     (Inr one_device_config, idle\<lparr>console := [[JStr ''config.js file loaded'']]\<rparr>)"
  by (simp add: batch_defs flow_defs)

lemma one_device_succeeds:
  "\<exists>r s2. runAllDevices (scripted (\<lambda>sel. True) (\<lambda>el. True) (\<lambda>el. True)) signed_in
             one_device_config (idle\<lparr>console := [[JStr ''config.js file loaded'']]\<rparr>)
           = (Inr [r], s2) \<and> success r"
  by (simp add: batch_defs run_defs flow_defs)

lemma one_device_fails:
  "fst (main_module unreachable signed_in (Inr ()) (Inr one_device_config) idle) = 1"
  by (simp add: batch_defs run_defs flow_defs unreachable_def)

lemma frozen_batch_throws:
  "fst (main_module unreachable signed_in (Inr ()) (Inr frozen_config) idle) = 1"
  by (simp add: batch_defs flow_defs unreachable_def)

text \<open>
  A dependency that cannot be loaded; a frozen configuration, on which the batch
  throws; one device that fails; one device that succeeds.
\<close>

theorem exit_code_by_successes_witness:
  "fst (main_module unreachable signed_in (Inl (Error ''Cannot find module webdriverio''))
          (Inr shipped_config) idle) = 1
   \<and> fst (main_module unreachable signed_in (Inr ()) (Inr frozen_config) idle) = 1
   \<and> fst (main_module unreachable signed_in (Inr ()) (Inr one_device_config) idle) = 1
   \<and> fst (main_module (scripted (\<lambda>sel. True) (\<lambda>el. True) (\<lambda>el. True)) signed_in (Inr ())
            (Inr one_device_config) idle) = 0"
proof -
  let ?P = "scripted (\<lambda>sel. True) (\<lambda>el. True) (\<lambda>el. True)"
  have a: "fst (main_module unreachable signed_in (Inl (Error ''Cannot find module webdriverio''))
          (Inr shipped_config) idle) = 1"
    using exit_code_by_successes
            [where dependencies = "Inl (Error ''Cannot find module webdriverio'')"
               and e = "Error ''Cannot find module webdriverio''", THEN conjunct1]
    by simp
  from exit_code_by_successes
         [where dependencies = "Inr ()" and required = "Inr one_device_config" and s = idle
            and ops = ?P and env = signed_in, THEN conjunct2]
  obtain cfg s1 outcome s2 where
    l: "load_config (Inr one_device_config) idle = (Inr cfg, s1)"
    and r: "runAllDevices ?P signed_in cfg s1 = (outcome, s2)"
    and c: "fst (main_module ?P signed_in (Inr ()) (Inr one_device_config) idle) =
              (case outcome of
                 Inr rs \<Rightarrow> if \<exists>r\<in>set rs. success r then 0 else 1
               | Inl err \<Rightarrow> 1)"
    by blast
  from l have "cfg = one_device_config"
    and "s1 = idle\<lparr>console := [[JStr ''config.js file loaded'']]\<rparr>"
    by (simp_all add: load_one_device)
  with r one_device_succeeds obtain res where "outcome = Inr [res]" and "success res"
    by auto
  with c have d: "fst (main_module ?P signed_in (Inr ()) (Inr one_device_config) idle) = 0"
    by simp
  from a frozen_batch_throws one_device_fails d show ?thesis
    by (intro conjI)
qed

section \<open>Multi-strategy resolution\<close>

lemma attempt_failed_Error:
  "attempt_failed prefix strategy (Error m) s =
     (Inr (), s\<lparr>console := console s @
                  [[JStr (prefix @ name strategy @ '': '' @ take 50 m @ ''...'')]]\<rparr>)"
  by (simp add: attempt_failed_def bindE_def liftE_def message_for_Error print_def)

lemma try_strategy_fails:
  assumes "throws_or_not_visible ops strategy s"
  shows "\<exists>element' s' cs. try_strategy ops prefix strategy element s = (Inr (False, element'), s')
            \<and> calls s' = calls s @ cs \<and> filter is_click cs = []"
  using assms
  by (auto simp: throws_or_not_visible_def try_strategy_def call_def attempt_failed_Error
                 bindE_def returnE_def has_message_iff
           split: prod.splits sum.splits)

lemma strategies_loop_skips:
  assumes "all_throw_or_not_visible ops prefix before element s"
      and "strategies_loop ops prefix before element s = (Inr element1, s1)"
  shows "strategies_loop ops prefix (before @ rest) element s
           = strategies_loop ops prefix rest element1 s1
         \<and> (\<exists>cs. calls s1 = calls s @ cs \<and> filter is_click cs = [])"
  using assms
proof (induction before arbitrary: element s)
  case Nil
  then show ?case by simp
next
  case (Cons c before)
  from Cons.prems(1) have f: "throws_or_not_visible ops c s" by simp
  from try_strategy_fails [OF f, of prefix element] obtain element' s' cs where
    t: "try_strategy ops prefix c element s = (Inr (False, element'), s')"
    and c1: "calls s' = calls s @ cs" and c2: "filter is_click cs = []"
    by blast
  from Cons.prems(1) t have a: "all_throw_or_not_visible ops prefix before element' s'"
    by simp
  from Cons.prems(2) t have b: "strategies_loop ops prefix before element' s' = (Inr element1, s1)"
    by simp
  from Cons.IH [OF a b] obtain cs' where
    "strategies_loop ops prefix (before @ rest) element' s'
       = strategies_loop ops prefix rest element1 s1"
    and "calls s1 = calls s' @ cs'" and "filter is_click cs' = []"
    by blast
  with t c1 c2 show ?case
    by auto
qed

lemma try_strategy_clicks:
  assumes "query ops (selector strategy) (world s) = (Inr el, w2)"
      and "isDisplayed ops el w2 = (Inr True, w3)"
      and "click ops el w3 = (Inr (), w4)"
  shows "try_strategy ops prefix strategy element s
           = (Inr (True, Some el),
              s\<lparr>world := w4,
                calls := calls s @ [Query (selector strategy), IsDisplayed el, Click el]\<rparr>)"
  using assms by (simp add: try_strategy_def call_def returnE_def)

text \<open>
  Claim C5, as the code has it.  When the candidates before a given one all throw an
  error with a message or resolve to an element that is not visible, and that one
  resolves to a visible element on which the click returns, the loop ends there with
  that element: it has issued one click, on that element, as its last call; none of
  the earlier calls is a click; and the candidates after it play no part (the result
  does not depend on them).
\<close>

theorem first_visible_match_wins:
  assumes "all_throw_or_not_visible ops prefix before element s"
      and "strategies_loop ops prefix before element s = (Inr element1, s1)"
      and "query ops (selector strategy) (world s1) = (Inr el, w2)"
      and "isDisplayed ops el w2 = (Inr True, w3)"
      and "click ops el w3 = (Inr (), w4)"
  shows "\<exists>cs. strategies_loop ops prefix (before @ strategy # after) element s
             = (Inr (Some el),
                s1\<lparr>world := w4,
                   calls := calls s @ cs @ [Query (selector strategy), IsDisplayed el, Click el]\<rparr>)
           \<and> calls s1 = calls s @ cs \<and> filter is_click cs = []"
proof -
  from strategies_loop_skips [OF assms(1,2), of "strategy # after"] obtain cs where
    l: "strategies_loop ops prefix (before @ strategy # after) element s
          = strategies_loop ops prefix (strategy # after) element1 s1"
    and c: "calls s1 = calls s @ cs" "filter is_click cs = []"
    by blast
  from try_strategy_clicks [OF assms(3,4,5), of prefix element1] l c
  show ?thesis by simp
qed

text \<open>
  Four candidates: the first throws, the second is hidden, the third is visible, the
  fourth is never reached.
\<close>

lemma two_hidden_candidates:
  "all_throw_or_not_visible (scripted (\<lambda>sel. sel \<noteq> ''a'') (\<lambda>el. el = ''c'') (\<lambda>el. True))
      ''Attempt failed for ''
      [\<lparr>name = ''A'', selector = ''a''\<rparr>, \<lparr>name = ''B'', selector = ''b''\<rparr>] None idle
   \<and> strategies_loop (scripted (\<lambda>sel. sel \<noteq> ''a'') (\<lambda>el. el = ''c'') (\<lambda>el. True))
      ''Attempt failed for ''
      [\<lparr>name = ''A'', selector = ''a''\<rparr>, \<lparr>name = ''B'', selector = ''b''\<rparr>] None idle
     = (Inr (Some ''b''),
        \<lparr> world = 0, calls = [Query ''a'', Query ''b'', IsDisplayed ''b''],
          console = [[JStr ''Attempt failed for A: no such element...'']], driver = False \<rparr>)"
  by (simp add: throws_or_not_visible_def flow_defs)

theorem first_visible_match_wins_witness:
  "all_throw_or_not_visible (scripted (\<lambda>sel. sel \<noteq> ''a'') (\<lambda>el. el = ''c'') (\<lambda>el. True))
      ''Attempt failed for ''
      [\<lparr>name = ''A'', selector = ''a''\<rparr>, \<lparr>name = ''B'', selector = ''b''\<rparr>] None idle
   \<and> strategies_loop (scripted (\<lambda>sel. sel \<noteq> ''a'') (\<lambda>el. el = ''c'') (\<lambda>el. True))
      ''Attempt failed for ''
      [\<lparr>name = ''A'', selector = ''a''\<rparr>, \<lparr>name = ''B'', selector = ''b''\<rparr>,
       \<lparr>name = ''C'', selector = ''c''\<rparr>, \<lparr>name = ''D'', selector = ''d''\<rparr>] None idle
     = (Inr (Some ''c''),
        \<lparr> world = 0,
          calls = [Query ''a'', Query ''b'', IsDisplayed ''b'',
                   Query ''c'', IsDisplayed ''c'', Click ''c''],
          console = [[JStr ''Attempt failed for A: no such element...'']], driver = False \<rparr>)"
proof -
  let ?P = "scripted (\<lambda>sel. sel \<noteq> ''a'') (\<lambda>el. el = ''c'') (\<lambda>el. True)"
  let ?s1 = "\<lparr> world = 0, calls = [Query ''a'', Query ''b'', IsDisplayed ''b''],
               console = [[JStr ''Attempt failed for A: no such element...'']], driver = False \<rparr>
             :: (int, string) system"
  have q: "query ?P (selector \<lparr>name = ''C'', selector = ''c''\<rparr>) (world ?s1) = (Inr ''c'', 0)"
    by (simp add: scripted_def)
  have d: "isDisplayed ?P ''c'' 0 = (Inr True, 0)"
    by (simp add: scripted_def)
  have c: "click ?P ''c'' 0 = (Inr (), 0)"
    by (simp add: scripted_def)
  from first_visible_match_wins
         [OF two_hidden_candidates [THEN conjunct1] two_hidden_candidates [THEN conjunct2] q d c,
          of "[\<lparr>name = ''D'', selector = ''d''\<rparr>]"]
  obtain cs where
    l: "strategies_loop ?P ''Attempt failed for ''
          ([\<lparr>name = ''A'', selector = ''a''\<rparr>, \<lparr>name = ''B'', selector = ''b''\<rparr>]
           @ \<lparr>name = ''C'', selector = ''c''\<rparr> # [\<lparr>name = ''D'', selector = ''d''\<rparr>]) None idle
        = (Inr (Some ''c''),
           ?s1\<lparr>world := 0,
                calls := calls idle @ cs @
                  [Query (selector \<lparr>name = ''C'', selector = ''c''\<rparr>), IsDisplayed ''c'', Click ''c'']\<rparr>)"
    and cs: "calls ?s1 = calls idle @ cs"
    by blast
  from cs have "cs = [Query ''a'', Query ''b'', IsDisplayed ''b'']"
    by (simp add: idle_def)
  with l have "strategies_loop ?P ''Attempt failed for ''
          ([\<lparr>name = ''A'', selector = ''a''\<rparr>, \<lparr>name = ''B'', selector = ''b''\<rparr>]
           @ \<lparr>name = ''C'', selector = ''c''\<rparr> # [\<lparr>name = ''D'', selector = ''d''\<rparr>]) None idle
        = (Inr (Some ''c''),
        \<lparr> world = 0,
          calls = [Query ''a'', Query ''b'', IsDisplayed ''b'',
                   Query ''c'', IsDisplayed ''c'', Click ''c''],
          console = [[JStr ''Attempt failed for A: no such element...'']], driver = False \<rparr>)"
    by (simp add: idle_def)
  then show ?thesis
    using two_hidden_candidates [THEN conjunct1] by simp
qed

text \<open>
  Claim C5 as stated fails when the click throws: the first candidate resolves to a
  visible element, its click throws inside the \<^verbatim>\<open>try\<close>, and the loop goes on to the
  second candidate, which it resolves and clicks as well.
\<close>

theorem failed_click_moves_on:
  "query (scripted (\<lambda>sel. True) (\<lambda>el. True) (\<lambda>el. False)) ''a'' (world idle) = (Inr ''a'', 0)
   \<and> isDisplayed (scripted (\<lambda>sel. True) (\<lambda>el. True) (\<lambda>el. False)) ''a'' 0 = (Inr True, 0)
   \<and> calls (snd (strategies_loop (scripted (\<lambda>sel. True) (\<lambda>el. True) (\<lambda>el. False))
                    ''Attempt failed for ''
                    [\<lparr>name = ''A'', selector = ''a''\<rparr>, \<lparr>name = ''B'', selector = ''b''\<rparr>]
                    None idle))
     = [Query ''a'', IsDisplayed ''a'', Click ''a'', Query ''b'', IsDisplayed ''b'', Click ''b'']"
  by (simp add: flow_defs)

section \<open>A hidden candidate passes for the found element\<close>

text \<open>
  The not-found error of the search box is thrown when \<^verbatim>\<open>driver.$\<close> throws for
  every candidate, for then the variable is never assigned.
\<close>

lemma strategies_loop_all_throw:
  assumes "\<And>sel w. \<exists>m w'. query ops sel w = (Inl (Error m), w')"
  shows "fst (strategies_loop ops prefix strategies None s) = Inr None"
proof (induction strategies arbitrary: s)
  case Nil
  then show ?case by simp
next
  case (Cons c cs)
  obtain m w' where q: "query ops (selector c) (world s) = (Inl (Error m), w')"
    using assms by blast
  then have "\<exists>s'. try_strategy ops prefix c None s = (Inr (False, None), s')"
    by (simp add: try_strategy_def call_def attempt_failed_Error bindE_def returnE_def)
  with Cons.IH show ?case by auto
qed

lemma search_box_not_found_if_all_throw:
  assumes "\<And>sel w. \<exists>m w'. query ops sel w = (Inl (Error m), w')"
  shows "fst (search_box_step ops s) = Inl (Error '' Search box not found.'')"
proof -
  obtain out s' where l: "strategies_loop ops ''Attempt failed for '' searchStrategies None s = (out, s')"
    by (cases "strategies_loop ops ''Attempt failed for '' searchStrategies None s")
  with strategies_loop_all_throw [OF assms, of "''Attempt failed for ''" searchStrategies s]
  have "out = Inr None" by simp
  with l show ?thesis
    by (simp add: search_box_step_def bindE_def throwE_def)
qed

text \<open>
  Claim C1 at a cloud where every selector resolves and nothing is displayed.  All five
  search-box candidates resolve to an element that is not visible, yet the step does not
  throw: \<^verbatim>\<open>searchElement\<close> was assigned before the visibility test, so the test
  \<^verbatim>\<open>!searchElement\<close> after the loop finds it set.  The same holds for the result
  entries.  The run fails one step later, at the text field, with that step's message.
\<close>

theorem hidden_candidate_is_accepted:
  "all_throw_or_not_visible nothing_visible ''Attempt failed for '' searchStrategies None idle
   \<and> fst (search_box_step nothing_visible idle) = Inr ()
   \<and> all_throw_or_not_visible nothing_visible '' Attempt failed for ''
         (appResultStrategies ''Google Chrome'') None idle
   \<and> fst (app_result_step nothing_visible ''Google Chrome'' idle) = Inr ()
   \<and> fst (runPlayStoreDownloadFlow nothing_visible signed_in DEFAULT_CONFIG ''Pixel 7'' idle)
       = Inr \<lparr> device = ''Pixel 7'', success = False, duration = 12,
               error = Some '' Text field not found.'', sessionId = None \<rparr>"
proof (intro conjI)
  show "all_throw_or_not_visible nothing_visible ''Attempt failed for '' searchStrategies None idle"
    by (simp add: throws_or_not_visible_def nothing_visible_def flow_defs)
  show "fst (search_box_step nothing_visible idle) = Inr ()"
    by (simp add: nothing_visible_def flow_defs)
  show "all_throw_or_not_visible nothing_visible '' Attempt failed for ''
         (appResultStrategies ''Google Chrome'') None idle"
    by (simp add: throws_or_not_visible_def nothing_visible_def flow_defs)
  show "fst (app_result_step nothing_visible ''Google Chrome'' idle) = Inr ()"
    by (simp add: nothing_visible_def flow_defs)
  show "fst (runPlayStoreDownloadFlow nothing_visible signed_in DEFAULT_CONFIG ''Pixel 7'' idle)
       = Inr \<lparr> device = ''Pixel 7'', success = False, duration = 12,
               error = Some '' Text field not found.'', sessionId = None \<rparr>"
    by (simp add: run_defs nothing_visible_def flow_defs)
qed

section \<open>The action button\<close>











section \<open>Teardown\<close>

lemma quietD:
  "quiet m \<Longrightarrow> m s = (r, s') \<Longrightarrow>
     driver s' = driver s \<and> filter is_teardown (calls s') = filter is_teardown (calls s)"
  unfolding quiet_def by blast

lemma quiet_returnE: "quiet (returnE x)"
  by (simp add: quiet_def returnE_def)

lemma quiet_throwE: "quiet (throwE e)"
  by (simp add: quiet_def throwE_def)

lemma quiet_liftE: "quiet (liftE outcome)"
  by (simp add: quiet_def liftE_def)

lemma quiet_print: "quiet (print l)"
  by (simp add: quiet_def print_def)

lemma quiet_Date_now: "quiet (Date_now ops)"
  by (auto simp: quiet_def Date_now_def split: prod.splits)

lemma quiet_call: "\<not> is_teardown c \<Longrightarrow> quiet (call c operation)"
  by (auto simp: quiet_def call_def split: prod.splits)

lemma quiet_bindE:
  assumes "quiet m" and "\<And>x. quiet (f x)"
  shows "quiet (bindE m f)"
  unfolding quiet_def
proof (intro allI impI)
  fix s r s'
  assume b: "bindE m f s = (r, s')"
  obtain out s1 where m: "m s = (out, s1)" by (cases "m s")
  note q1 = quietD [OF assms(1) m]
  show "driver s' = driver s \<and> filter is_teardown (calls s') = filter is_teardown (calls s)"
  proof (cases out)
    case (Inl e)
    with b m have "s' = s1" by (simp add: bindE_def)
    with q1 show ?thesis by simp
  next
    case (Inr x)
    with b m have "f x s1 = (r, s')" by (simp add: bindE_def)
    from quietD [OF assms(2) this] q1 show ?thesis by simp
  qed
qed

lemma quiet_if: "quiet m \<Longrightarrow> quiet n \<Longrightarrow> quiet (if b then m else n)"
  by simp

lemmas quiet_basic =
  quiet_bindE quiet_if quiet_returnE quiet_throwE quiet_liftE quiet_print quiet_Date_now
  quiet_call

lemma quiet_attempt_failed: "quiet (attempt_failed prefix strategy e)"
  unfolding attempt_failed_def by (intro quiet_basic)

lemma quiet_after_attempt_failed:
  "quiet (bindE (attempt_failed prefix strategy e) (\<lambda>u. returnE v))"
  by (intro quiet_basic quiet_attempt_failed)

lemma returnE_apply: "returnE x s = (Inr x, s)"
  by (simp add: returnE_def)

lemma after_attempt_failed_frame:
  assumes "bindE (attempt_failed prefix strategy e) (\<lambda>u. returnE v) a = (r, b)"
  shows "driver b = driver a \<and> filter is_teardown (calls b) = filter is_teardown (calls a)"
  using quietD [OF quiet_after_attempt_failed assms] .

lemma try_strategy_quiet:
  assumes "try_strategy ops prefix strategy element s = (out, s')"
  shows "driver s' = driver s \<and> filter is_teardown (calls s') = filter is_teardown (calls s)"
  using assms
  by (auto simp: try_strategy_def call_def returnE_apply
           split: prod.splits sum.splits if_splits dest!: after_attempt_failed_frame)

lemma strategies_loop_quiet:
  assumes "strategies_loop ops prefix strategies element s = (out, s')"
  shows "driver s' = driver s \<and> filter is_teardown (calls s') = filter is_teardown (calls s)"
  using assms
proof (induction strategies arbitrary: element s)
  case Nil
  then show ?case by simp
next
  case (Cons c cs)
  obtain tout s1 where t: "try_strategy ops prefix c element s = (tout, s1)"
    by (cases "try_strategy ops prefix c element s")
  note q = try_strategy_quiet [OF t]
  show ?case
  proof (cases tout)
    case (Inl e)
    with Cons.prems t have "s' = s1" by simp
    with q show ?thesis by simp
  next
    case (Inr pair)
    obtain broke el1 where p: "pair = (broke, el1)" by (cases pair)
    show ?thesis
    proof (cases broke)
      case True
      with Cons.prems t Inr p have "s' = s1" by simp
      with q show ?thesis by simp
    next
      case False
      with Cons.prems t Inr p have "strategies_loop ops prefix cs el1 s1 = (out, s')" by simp
      from Cons.IH [OF this] q show ?thesis by simp
    qed
  qed
qed

lemma quiet_strategies_loop: "quiet (strategies_loop ops prefix strategies element)"
  unfolding quiet_def using strategies_loop_quiet by blast

lemmas quiet_intros = quiet_basic quiet_strategies_loop

lemma quiet_search_box_step: "quiet (search_box_step ops)"
  unfolding search_box_step_def by (intro quiet_intros)

lemma quiet_app_result_step: "quiet (app_result_step ops app)"
  unfolding app_result_step_def by (intro quiet_intros)

lemma quiet_type_query_step: "quiet (type_query_step ops app)"
  unfolding type_query_step_def by (intro quiet_intros) simp_all

lemma quiet_install_step: "quiet (install_step ops)"
  unfolding install_step_def by (intro quiet_intros) simp_all

lemma quiet_open_detail_page: "quiet (open_detail_page ops config)"
  unfolding open_detail_page_def
  by (intro quiet_intros quiet_type_query_step quiet_app_result_step) simp_all

lemma quiet_classify: "quiet (classify msg)"
  unfolding classify_def by (intro quiet_intros)

lemma quiet_report_failure: "quiet (report_failure ops dev t e)"
  unfolding report_failure_def by (intro quiet_intros quiet_classify)

lemma open_session_frame:
  assumes "open_session ops env dev s = (r, s')" and "\<not> driver s"
  shows "driver s' = session_opens ops env dev s
         \<and> filter is_teardown (calls s') = filter is_teardown (calls s)"
  using assms
  by (auto simp: open_session_def session_opens_def credentials_def bindE_def returnE_def
                 throwE_def Date_now_def call_def
           split: prod.splits sum.splits option.splits if_splits)

lemma bindE_cases:
  assumes "bindE m f s = (r, s')"
  shows "(\<exists>e. m s = (Inl e, s') \<and> r = Inl e) \<or> (\<exists>x s1. m s = (Inr x, s1) \<and> f x s1 = (r, s'))"
  using assms by (auto simp: bindE_def split: prod.splits sum.splits)

lemma flow_frame:
  assumes "flow ops env config dev t s = (r, s')" and "\<not> driver s"
  shows "driver s' = session_opens ops env dev s
         \<and> filter is_teardown (calls s') = filter is_teardown (calls s)"
proof -
  from assms(1) have "bindE (open_session ops env dev) (\<lambda>sid.
     bindE (search_box_step ops) (\<lambda>_.
     bindE (open_detail_page ops config) (\<lambda>_.
     bindE (install_step ops) (\<lambda>_.
     bindE (call (Pause 30000) (pause ops 30000)) (\<lambda>_.
     bindE (Date_now ops) (\<lambda>endTime.
     returnE \<lparr> device = dev, success = True,
               duration = round_seconds (endTime - t),
               error = None, sessionId = Some sid \<rparr>)))))) s = (r, s')"
    (is "bindE _ ?rest s = _")
    unfolding flow_def .
  from bindE_cases [OF this] show ?thesis
  proof
    assume "\<exists>e. open_session ops env dev s = (Inl e, s') \<and> r = Inl e"
    then obtain e where "open_session ops env dev s = (Inl e, s')" by blast
    from open_session_frame [OF this assms(2)] show ?thesis .
  next
    assume "\<exists>x s1. open_session ops env dev s = (Inr x, s1) \<and> ?rest x s1 = (r, s')"
    then obtain sid s1 where o: "open_session ops env dev s = (Inr sid, s1)"
      and c: "?rest sid s1 = (r, s')"
      by blast
    have "quiet (?rest sid)"
      by (intro quiet_intros quiet_search_box_step quiet_open_detail_page quiet_install_step)
         simp
    from quietD [OF this c] open_session_frame [OF o assms(2)] show ?thesis by simp
  qed
qed

lemma guarded_flow_frame:
  assumes "guarded_flow ops env config dev t s = (out, s1)" and "\<not> driver s"
  shows "driver s1 = session_opens ops env dev s
         \<and> filter is_teardown (calls s1) = filter is_teardown (calls s)"
proof (cases "flow ops env config dev t s")
  case (Pair r s')
  note f = flow_frame [OF Pair assms(2)]
  show ?thesis
  proof (cases r)
    case (Inl e)
    with assms(1) Pair have "report_failure ops dev t e s' = (out, s1)"
      by (simp add: guarded_flow_def try_catch_def)
    from quietD [OF quiet_report_failure this] f show ?thesis by simp
  next
    case (Inr res)
    with assms(1) Pair have "s1 = s'"
      by (simp add: guarded_flow_def try_catch_def)
    with f show ?thesis by simp
  qed
qed

text \<open>
  Claim C6, as the code has it.  Let \<open>out\<close> be what the \<^verbatim>\<open>try\<close> and \<^verbatim>\<open>catch\<close> blocks
  produced.  If the session was opened, the teardown asks once for the session to be
  deleted, as the last call of the run; if no session was opened (credentials missing,
  or \<^verbatim>\<open>remote\<close> threw), nothing is deleted; and before the teardown the run never asks
  for a deletion.  Unless deleting the session rejects with \<^verbatim>\<open>null\<close> or
  \<^verbatim>\<open>undefined\<close>, the run ends with \<open>out\<close>, unchanged, and the teardown has printed one
  line: that the session is closed, or, when deleting threw, the problem and, as a
  second argument, the message.
\<close>

theorem teardown_once_if_session_opened:
  assumes "now ops (world s) = (startTime, w0)"
      and "guarded_flow ops env config dev startTime (s\<lparr>driver := False, world := w0\<rparr>) = (out, s1)"
      and "deleteSession ops (world s1) = (closed, w2)"
  shows "calls (snd (runPlayStoreDownloadFlow ops env config dev s)) =
           calls s1 @ (if session_opens ops env dev (s\<lparr>driver := False, world := w0\<rparr>)
                       then [DeleteSession] else [])
         \<and> filter is_teardown (calls s1) = filter is_teardown (calls s)
         \<and> (\<not> rejects_with_nothing closed \<longrightarrow>
              runPlayStoreDownloadFlow ops env config dev s =
                (out,
                 if session_opens ops env dev (s\<lparr>driver := False, world := w0\<rparr>)
                 then s1\<lparr>world := w2, calls := calls s1 @ [DeleteSession],
                         console := console s1 @
                           [case closed of
                              Inr u \<Rightarrow> [JStr ('' Session for '' @ dev @ '' closed'')]
                            | Inl (Error m) \<Rightarrow>
                                [JStr ('' Problem closing session for '' @ dev @ '':''), JStr m]
                            | Inl e \<Rightarrow>
                                [JStr ('' Problem closing session for '' @ dev @ '':''),
                                 JUndefined]]\<rparr>
                 else s1))"
proof -
  let ?s0 = "s\<lparr>driver := False, world := w0\<rparr>"
  have nd: "\<not> driver ?s0" by simp
  from guarded_flow_frame [OF assms(2) nd]
  have d: "driver s1 = session_opens ops env dev ?s0"
    and c: "filter is_teardown (calls s1) = filter is_teardown (calls s)"
    by simp_all
  note r = run_decompose [OF assms(1,2)]
  have a: "calls (snd (runPlayStoreDownloadFlow ops env config dev s)) =
           calls s1 @ (if session_opens ops env dev ?s0 then [DeleteSession] else [])"
    using teardown_calls [of ops dev s1] d r
    by (cases "teardown ops dev s1") (auto split: sum.splits)
  have b: "runPlayStoreDownloadFlow ops env config dev s =
                (out,
                 if session_opens ops env dev ?s0
                 then s1\<lparr>world := w2, calls := calls s1 @ [DeleteSession],
                         console := console s1 @
                           [case closed of
                              Inr u \<Rightarrow> [JStr ('' Session for '' @ dev @ '' closed'')]
                            | Inl (Error m) \<Rightarrow>
                                [JStr ('' Problem closing session for '' @ dev @ '':''), JStr m]
                            | Inl e \<Rightarrow>
                                [JStr ('' Problem closing session for '' @ dev @ '':''),
                                 JUndefined]]\<rparr>
                 else s1)"
    if n: "\<not> rejects_with_nothing closed"
    using teardown_returns [OF assms(3) n, of dev] d r by simp
  from a c b show ?thesis by blast
qed

text \<open>A run that succeeds on a cloud where deleting the session throws.\<close>

lemma teardown_fails_flow:
  "\<exists>s1. flow teardown_fails signed_in DEFAULT_CONFIG ''Pixel 7'' 0 (idle\<lparr>driver := False, world := 0\<rparr>)
      = (Inr \<lparr> device = ''Pixel 7'', success = True, duration = 52, error = None,
               sessionId = Some ''session-1'' \<rparr>, s1)"
  by (simp add: flow_defs teardown_fails_def round_seconds_def)

theorem teardown_once_if_session_opened_witness:
  "fst (runPlayStoreDownloadFlow teardown_fails signed_in DEFAULT_CONFIG ''Pixel 7'' idle)
     = Inr \<lparr> device = ''Pixel 7'', success = True, duration = 52, error = None,
              sessionId = Some ''session-1'' \<rparr>
   \<and> filter is_teardown
         (calls (snd (runPlayStoreDownloadFlow teardown_fails signed_in DEFAULT_CONFIG ''Pixel 7'' idle)))
       = [DeleteSession]
   \<and> last (console (snd (runPlayStoreDownloadFlow teardown_fails signed_in DEFAULT_CONFIG
                           ''Pixel 7'' idle)))
       = [JStr '' Problem closing session for Pixel 7:'', JStr ''socket hang up'']"
proof -
  let ?s0 = "idle\<lparr>driver := False, world := 0\<rparr>"
  obtain s1 where "flow teardown_fails signed_in DEFAULT_CONFIG ''Pixel 7'' 0 ?s0
      = (Inr \<lparr> device = ''Pixel 7'', success = True, duration = 52, error = None,
               sessionId = Some ''session-1'' \<rparr>, s1)"
    using teardown_fails_flow by blast
  then have g: "guarded_flow teardown_fails signed_in DEFAULT_CONFIG ''Pixel 7'' 0 ?s0
      = (Inr \<lparr> device = ''Pixel 7'', success = True, duration = 52, error = None,
               sessionId = Some ''session-1'' \<rparr>, s1)"
    by (simp add: guarded_flow_def try_catch_def)
  have t0: "now teardown_fails (world idle) = (0, 0)"
    by (simp add: teardown_fails_def scripted_def idle_def)
  have d: "deleteSession teardown_fails (world s1) = (Inl (Error ''socket hang up''), world s1)"
    by (simp add: teardown_fails_def)
  have n: "\<not> rejects_with_nothing (Inl (Error ''socket hang up'') :: exn + unit)"
    by simp
  have o: "session_opens teardown_fails signed_in ''Pixel 7'' ?s0"
    by (simp add: session_opens_def credentials_def signed_in_def returnE_def
          teardown_fails_def scripted_def idle_def)
  note inst = teardown_once_if_session_opened [OF t0 g d]
  from inst [THEN conjunct2, THEN conjunct2, THEN mp, OF n] o
  have r: "runPlayStoreDownloadFlow teardown_fails signed_in DEFAULT_CONFIG ''Pixel 7'' idle =
           (Inr \<lparr> device = ''Pixel 7'', success = True, duration = 52, error = None,
                   sessionId = Some ''session-1'' \<rparr>,
            s1\<lparr>world := world s1, calls := calls s1 @ [DeleteSession],
               console := console s1 @
                 [[JStr '' Problem closing session for Pixel 7:'', JStr ''socket hang up'']]\<rparr>)"
    by simp
  from inst [THEN conjunct2, THEN conjunct1]
  have "filter is_teardown (calls s1) = []"
    by (simp add: idle_def)
  with r show ?thesis by simp
qed

text \<open>
  Claim C6 as stated fails when no session was opened: on the cloud that cannot be
  reached the run fails and the teardown is not attempted at all.
\<close>

theorem no_teardown_without_session:
  "fst (runPlayStoreDownloadFlow unreachable signed_in DEFAULT_CONFIG ''Pixel 7'' idle)
     = Inr \<lparr> device = ''Pixel 7'', success = False, duration = 120,
              error = Some ''connect ETIMEDOUT'', sessionId = None \<rparr>
   \<and> filter is_teardown
         (calls (snd (runPlayStoreDownloadFlow unreachable signed_in DEFAULT_CONFIG ''Pixel 7'' idle)))
       = []"
  by (simp add: run_defs unreachable_def flow_defs)

end
